theory Spec2Isabelle
  imports Main
begin

section \<open>The function list exporter (export\_functions.py)\<close>

text \<open>
  The script runs inside the disassembler host. Everything it touches outside its own
  variables is made explicit here: the host database and the user (\<open>host\<close>), the
  operating system and the clock (\<open>sys_env\<close>), and the mutable world it acts on
  (\<open>world\<close>: files, open file handles, the console and the dialogs shown).
  An external call that raises is a value \<open>Inl e\<close>; a Python function is a function
  from the world to an outcome and the new world.
\<close>

subsection \<open>Exceptions\<close>

text \<open>
  \<open>except Exception\<close> (line 63) catches the instances of \<open>Exception\<close> only;
  \<open>KeyboardInterrupt\<close> and \<open>SystemExit\<close> derive from \<open>BaseException\<close> directly.
  The bare \<open>except:\<close> of \<open>main\<close> (line 73) catches all of them.
\<close>

datatype py_exception =
    FileNotFoundError string
  | PermissionError string
  | OSError string
  | UnicodeEncodeError string
  | ValueError string
  | TypeError string
  | RuntimeError string
  | KeyboardInterrupt
  | SystemExit

fun is_Exception :: "py_exception \<Rightarrow> bool" where
  "is_Exception KeyboardInterrupt = False"
| "is_Exception SystemExit = False"
| "is_Exception _ = True"

text \<open>\<open>str(e)\<close>: the message the exception carries.\<close>

fun str_exc :: "py_exception \<Rightarrow> string" where
  "str_exc (FileNotFoundError m) = m"
| "str_exc (PermissionError m) = m"
| "str_exc (OSError m) = m"
| "str_exc (UnicodeEncodeError m) = m"
| "str_exc (ValueError m) = m"
| "str_exc (TypeError m) = m"
| "str_exc (RuntimeError m) = m"
| "str_exc KeyboardInterrupt = []"
| "str_exc SystemExit = []"

subsection \<open>Formatting integers\<close>

text \<open>
  \<open>f"{func_ea:X}"\<close> is the uppercase hexadecimal numeral of the address and
  \<open>f"{func_ea}"\<close> its decimal numeral. Addresses are the host's \<open>ea_t\<close> values
  (unsigned), so they are natural numbers; \<open>index\<close> and \<open>count\<close> are Python
  integers. A numeral is built digit by digit from the digit table; the bases used are
  16 and 10, so a digit is below 16.
\<close>

definition digit_char :: "nat \<Rightarrow> char" where
  "digit_char d = ''0123456789ABCDEF'' ! d"

fun format_base :: "nat \<Rightarrow> nat \<Rightarrow> string" where
  "format_base b n =
     (if b < 2 \<or> n < b then [digit_char n]
      else format_base b (n div b) @ [digit_char (n mod b)])"

declare format_base.simps [simp del]

definition format_X :: "nat \<Rightarrow> string" where
  "format_X n = format_base 16 n"

definition str_nat :: "nat \<Rightarrow> string" where
  "str_nat n = format_base 10 n"

definition str_int :: "int \<Rightarrow> string" where
  "str_int i = (if i < 0 then ''-'' @ str_nat (nat (- i)) else str_nat (nat i))"

text \<open>Reading a numeral back: the value a string of digits denotes in base \<open>b\<close>.\<close>

definition digit_val :: "char \<Rightarrow> nat" where
  "digit_val c = (let k = (of_char c :: nat) in if k < 58 then k - 48 else k - 55)"

definition numeral_val :: "nat \<Rightarrow> string \<Rightarrow> nat" where
  "numeral_val b s = foldl (\<lambda>acc c. acc * b + digit_val c) 0 s"

definition is_upper_hex :: "char \<Rightarrow> bool" where
  "is_upper_hex c = (c \<in> set ''0123456789ABCDEF'')"

definition is_dec_digit :: "char \<Rightarrow> bool" where
  "is_dec_digit c = (c \<in> set ''0123456789'')"

subsection \<open>The lines of the document\<close>

definition title_line :: "string \<Rightarrow> string" where
  "title_line binary_name = ''# Function List - '' @ binary_name @ ''\<newline>\<newline>''"

definition time_line :: "string \<Rightarrow> string" where
  "time_line current_time = ''Export Time: '' @ current_time @ ''\<newline>\<newline>''"

definition header_line :: string where
  "header_line = ''| # | Address (Hex) | Address (Dec) | Function Name |\<newline>''"

definition rule_line :: string where
  "rule_line = ''|------|--------------|------------|-------|\<newline>''"

definition format_row :: "int \<Rightarrow> nat \<Rightarrow> string \<Rightarrow> string" where
  "format_row index func_ea func_name =
     ''| '' @ str_int index @ '' | `0x'' @ format_X func_ea @ ''` | '' @ str_nat func_ea
       @ '' | `'' @ func_name @ ''` |\<newline>''"

definition total_line :: "int \<Rightarrow> string" where
  "total_line count = ''\<newline>\<newline>Total: '' @ str_int count @ '' functions\<newline>''"

definition success_message :: "int \<Rightarrow> string \<Rightarrow> string" where
  "success_message count output_path =
     ''Successfully exported '' @ str_int count @ '' functions to: '' @ output_path"

definition failure_message :: "py_exception \<Rightarrow> string" where
  "failure_message e = ''Export failed: '' @ str_exc e"

subsection \<open>The host, the operating system and the world\<close>

text \<open>
  The host is read only: the binary's display name, its function table in the host's
  iteration order, the name bound to each address, the path of the input file, and the
  user's answer to the save dialog (it may depend on the dialog's arguments).
  \<open>idautils.Functions()\<close> is a generator: it yields the addresses of \<open>Functions\<close>
  and then either stops or, when \<open>Functions_fault\<close> is set, raises.
\<close>

record host =
  get_root_filename :: "py_exception + string"
  Functions :: "nat list"
  Functions_fault :: "py_exception option"
  get_name :: "nat \<Rightarrow> py_exception + string"
  get_input_file_path :: "py_exception + string option"
  ask_file :: "int \<Rightarrow> string \<Rightarrow> string \<Rightarrow> string \<Rightarrow> string option"

text \<open>
  The operating system: whether opening a path for writing raises, whether a write of a
  chunk raises (it may depend on what the file holds already), whether closing raises;
  the text of \<open>datetime.datetime.now().strftime("%Y-%m-%d %H:%M:%S")\<close>; and the
  functions of \<open>os\<close> that \<open>main\<close> calls, which depend on the platform.
\<close>

record sys_env =
  open_fault :: "string \<Rightarrow> py_exception option"
  write_fault :: "string \<Rightarrow> string \<Rightarrow> py_exception option"
  close_fault :: "py_exception option"
  now_strftime :: string
  getcwd :: string
  dirname :: "string \<Rightarrow> string"
  path_join :: "string \<Rightarrow> string \<Rightarrow> string"

record world =
  files :: "string \<rightharpoonup> string"
  open_handles :: "string list"
  console :: "string list"
  dialogs :: "string list"

type_synonym 'a outcome = "(py_exception + 'a) \<times> world"

subsection \<open>Primitive operations\<close>

text \<open>
  \<open>print\<close> appends a line to the console; \<open>ida_kernwin.info\<close> shows a dialog. Both
  are taken not to raise here; a \<open>print\<close> that may raise is modelled further down,
  by \<open>print_or_raise\<close>.
\<close>

definition py_print :: "string \<Rightarrow> world \<Rightarrow> world" where
  "py_print s w = w\<lparr>console := console w @ [s]\<rparr>"

definition info :: "string \<Rightarrow> world \<Rightarrow> world" where
  "info s w = w\<lparr>dialogs := dialogs w @ [s]\<rparr>"

text \<open>
  \<open>open(path, 'w', encoding='utf-8')\<close>: on success the file exists and is empty
  (created or truncated) and a handle on it is open; on failure nothing changes.
\<close>

definition py_open_w :: "sys_env \<Rightarrow> string \<Rightarrow> world \<Rightarrow> unit outcome" where
  "py_open_w env path w =
     (case open_fault env path of
        Some e \<Rightarrow> (Inl e, w)
      | None \<Rightarrow> (Inr (), w\<lparr>files := (files w)(path \<mapsto> []),
                              open_handles := path # open_handles w\<rparr>))"

text \<open>
  \<open>md_file.write(s)\<close> appends \<open>s\<close> to the file. Writing through a closed handle
  raises \<open>ValueError\<close>; a write that raises leaves the file as it was. The model
  writes through. Python's file object buffers: a chunk reaches the file at a later
  write or at the close, so that the file of the model is the file on disk for the runs
  whose close succeeds; after a close that raises, the file on disk can end inside a
  chunk.
\<close>

definition file_content :: "world \<Rightarrow> string \<Rightarrow> string" where
  "file_content w path = (case files w path of None \<Rightarrow> [] | Some c \<Rightarrow> c)"

definition md_write :: "sys_env \<Rightarrow> string \<Rightarrow> string \<Rightarrow> world \<Rightarrow> unit outcome" where
  "md_write env path s w =
     (if path \<notin> set (open_handles w)
      then (Inl (ValueError ''I/O operation on closed file.''), w)
      else case write_fault env (file_content w path) s of
             Some e \<Rightarrow> (Inl e, w)
           | None \<Rightarrow> (Inr (), w\<lparr>files := (files w)(path \<mapsto> file_content w path @ s)\<rparr>))"

text \<open>
  Closing releases the handle whether or not the final flush raises. As the writes of
  the model go through, the close has nothing left to write: \<open>close_fault\<close> is the
  exception of that final flush, and the close leaves the file of the model as it is.
\<close>

definition py_close :: "sys_env \<Rightarrow> string \<Rightarrow> world \<Rightarrow> unit outcome" where
  "py_close env path w =
     (let w' = w\<lparr>open_handles := remove1 path (open_handles w)\<rparr>
      in case close_fault env of Some e \<Rightarrow> (Inl e, w') | None \<Rightarrow> (Inr (), w'))"

text \<open>Sequencing: the second step runs only when the first did not raise.\<close>

definition and_then ::
  "(py_exception + 'a) \<times> 's \<Rightarrow> ('a \<Rightarrow> 's \<Rightarrow> (py_exception + 'b) \<times> 's) \<Rightarrow> (py_exception + 'b) \<times> 's" where
  "and_then r f = (case r of (Inl e, w) \<Rightarrow> (Inl e, w) | (Inr x, w) \<Rightarrow> f x w)"

text \<open>A host query changes nothing in the world.\<close>

definition query :: "py_exception + 'a \<Rightarrow> 's \<Rightarrow> (py_exception + 'a) \<times> 's" where
  "query r w = (r, w)"

text \<open>
  \<open>with open(path, 'w') as f: body\<close>: when the open raises, the body does not run.
  Otherwise the body runs and the file is closed at the block's exit, also when the
  body raised; an exception of the close replaces the body's outcome.
\<close>

definition with_open :: "sys_env \<Rightarrow> string \<Rightarrow> (world \<Rightarrow> 'a outcome) \<Rightarrow> world \<Rightarrow> 'a outcome" where
  "with_open env path body w =
     (case py_open_w env path w of
        (Inl e, w1) \<Rightarrow> (Inl e, w1)
      | (Inr u, w1) \<Rightarrow>
          (case body w1 of (r, w2) \<Rightarrow>
             (case py_close env path w2 of
                (Inl e, w3) \<Rightarrow> (Inl e, w3)
              | (Inr u', w3) \<Rightarrow> (r, w3))))"

subsection \<open>export\_functions\<close>

text \<open>
  The \<open>for\<close> loop of lines 52 to 56, over what the generator still has to yield,
  with the loop variable \<open>index\<close> and the counter \<open>count\<close>.
\<close>

fun write_rows :: "sys_env \<Rightarrow> host \<Rightarrow> string \<Rightarrow> nat list \<Rightarrow> int \<Rightarrow> int \<Rightarrow> world \<Rightarrow> int outcome" where
  "write_rows env h path [] index count w =
     (case Functions_fault h of Some e \<Rightarrow> (Inl e, w) | None \<Rightarrow> (Inr count, w))"
| "write_rows env h path (func_ea # rest) index count w =
     and_then (query (get_name h func_ea) w) (\<lambda>func_name w.
     and_then (md_write env path (format_row index func_ea func_name) w) (\<lambda>u w.
     write_rows env h path rest (index + 1) (count + 1) w))"

text \<open>The body of the \<open>with\<close> block (lines 39 to 59); its value is \<open>count\<close>.\<close>

definition write_document :: "sys_env \<Rightarrow> host \<Rightarrow> string \<Rightarrow> world \<Rightarrow> int outcome" where
  "write_document env h path w =
     and_then (query (get_root_filename h) w) (\<lambda>binary_name w.
     and_then (md_write env path (title_line binary_name) w) (\<lambda>u w.
     and_then (md_write env path (time_line (now_strftime env)) w) (\<lambda>u w.
     and_then (md_write env path header_line w) (\<lambda>u w.
     and_then (md_write env path rule_line w) (\<lambda>u w.
     and_then (write_rows env h path (Functions h) 1 0 w) (\<lambda>count w.
     and_then (md_write env path (total_line count) w) (\<lambda>u w.
     (Inr count, w))))))))"

text \<open>The \<open>try\<close> block (lines 38 to 62).\<close>

definition try_block :: "sys_env \<Rightarrow> host \<Rightarrow> string \<Rightarrow> world \<Rightarrow> int outcome" where
  "try_block env h output_path w =
     and_then (with_open env output_path (write_document env h output_path) w) (\<lambda>count w.
     (Inr count, py_print (success_message count output_path) w))"

definition export_functions :: "sys_env \<Rightarrow> host \<Rightarrow> string \<Rightarrow> world \<Rightarrow> int outcome" where
  "export_functions env h output_path w =
     (case try_block env h output_path w of
        (Inr count, w') \<Rightarrow> (Inr count, w')
      | (Inl e, w') \<Rightarrow>
          if is_Exception e then (Inr 0, py_print (failure_message e) w')
          else (Inl e, w'))"

subsection \<open>main\<close>

text \<open>
  \<open>not output_path\<close> holds for \<open>None\<close> and for the empty string. In \<open>main\<close> the
  \<open>case\<close> only names the path that the test of line 86 has found to be there.
\<close>

fun not_path :: "string option \<Rightarrow> bool" where
  "not_path None = True"
| "not_path (Some s) = (s = [])"

text \<open>
  Lines 71 to 74: \<open>os.path.dirname\<close> of \<open>None\<close> raises \<open>TypeError\<close>, and the bare
  \<open>except\<close> catches whatever was raised.
\<close>

definition default_dir :: "sys_env \<Rightarrow> host \<Rightarrow> string" where
  "default_dir env h =
     (case get_input_file_path h of
        Inr (Some input_path) \<Rightarrow> dirname env input_path
      | Inr None \<Rightarrow> getcwd env
      | Inl e \<Rightarrow> getcwd env)"

definition info_message :: "int \<Rightarrow> string \<Rightarrow> string" where
  "info_message count output_path =
     ''Successfully exported '' @ str_int count @ '' functions to:\<newline>'' @ output_path"

definition main :: "sys_env \<Rightarrow> host \<Rightarrow> world \<Rightarrow> unit outcome" where
  "main env h w =
     (let default_filename = path_join env (default_dir env h) ''exported_functions.md'';
          output_path = ask_file h 1 ''*.md'' ''Select path to save function list'' default_filename
      in case output_path of
           None \<Rightarrow> (Inr (), py_print ''Export cancelled'' w)
         | Some path \<Rightarrow>
             if not_path output_path then (Inr (), py_print ''Export cancelled'' w)
             else and_then (export_functions env h path w) (\<lambda>count w.
                    if count > 0 then (Inr (), info (info_message count path) w)
                    else (Inr (), w)))"

text \<open>The answer of the save dialog, as \<open>main\<close> asks for it (lines 76 to 84).\<close>

definition asked_path :: "sys_env \<Rightarrow> host \<Rightarrow> string option" where
  "asked_path env h =
     ask_file h 1 ''*.md'' ''Select path to save function list''
       (path_join env (default_dir env h) ''exported_functions.md'')"

subsection \<open>A console that may raise\<close>

text \<open>
  \<open>print\<close> writes to \<open>sys.stdout\<close>, inside the host the stream of the output
  window, and a write to a stream can raise (the stream was closed or replaced, the text
  cannot be encoded). The exporter prints at the end of the \<open>try\<close> block (line 61)
  and inside the handler (line 64), where nothing catches what \<open>print\<close> raises. Here
  the console is a parameter: \<open>print_fault s\<close> is the exception that printing \<open>s\<close>
  raises, if any. \<open>try_block_console\<close> and \<open>export_functions_console\<close> are lines
  38 to 62 and 36 to 65 over such a console; with a console that never raises they are
  \<open>try_block\<close> and \<open>export_functions\<close>.
\<close>

definition print_or_raise :: "(string \<Rightarrow> py_exception option) \<Rightarrow> string \<Rightarrow> world \<Rightarrow> unit outcome" where
  "print_or_raise print_fault s w =
     (case print_fault s of Some e \<Rightarrow> (Inl e, w) | None \<Rightarrow> (Inr (), py_print s w))"

definition try_block_console ::
  "(string \<Rightarrow> py_exception option) \<Rightarrow> sys_env \<Rightarrow> host \<Rightarrow> string \<Rightarrow> world \<Rightarrow> int outcome" where
  "try_block_console print_fault env h output_path w =
     and_then (with_open env output_path (write_document env h output_path) w) (\<lambda>count w.
     and_then (print_or_raise print_fault (success_message count output_path) w) (\<lambda>u w.
     (Inr count, w)))"

definition export_functions_console ::
  "(string \<Rightarrow> py_exception option) \<Rightarrow> sys_env \<Rightarrow> host \<Rightarrow> string \<Rightarrow> world \<Rightarrow> int outcome" where
  "export_functions_console print_fault env h output_path w =
     (case try_block_console print_fault env h output_path w of
        (Inr count, w') \<Rightarrow> (Inr count, w')
      | (Inl e, w') \<Rightarrow>
          if is_Exception e
          then and_then (print_or_raise print_fault (failure_message e) w') (\<lambda>u w. (Inr 0, w))
          else (Inl e, w'))"

subsection \<open>Opening a file for writing\<close>

text \<open>
  Which exception \<open>open(path, 'w')\<close> raises on a POSIX file system, from the state
  of the directory that is to hold \<open>path\<close> and of the file there: creating a file
  needs a directory that exists and is writable; opening and truncating a file that
  exists needs the permission to write the file, not the directory. \<open>ReadOnly\<close> is a
  directory that can be searched but not written. The messages are \<open>str(e)\<close> without
  the path that Python appends to them.
\<close>

datatype dir_state = Missing | ReadOnly | Writable

record fs_perms =
  parent_dir :: "string \<Rightarrow> dir_state"
  file_writable :: "string \<Rightarrow> bool"

definition os_open_fault :: "fs_perms \<Rightarrow> (string \<rightharpoonup> string) \<Rightarrow> string \<Rightarrow> py_exception option" where
  "os_open_fault perms fs path =
     (case parent_dir perms path of
        Missing \<Rightarrow> Some (FileNotFoundError ''[Errno 2] No such file or directory'')
      | ReadOnly \<Rightarrow>
          (case fs path of
             None \<Rightarrow> Some (PermissionError ''[Errno 13] Permission denied'')
           | Some c \<Rightarrow> if file_writable perms path then None
                       else Some (PermissionError ''[Errno 13] Permission denied''))
      | Writable \<Rightarrow>
          (case fs path of
             None \<Rightarrow> None
           | Some c \<Rightarrow> if file_writable perms path then None
                       else Some (PermissionError ''[Errno 13] Permission denied'')))"

section \<open>The document as the specification describes it\<close>

text \<open>
  The function records of the host, the rows of the table for a list of records, and
  the whole document, following the specification's data model and file format. The
  binary name and a function's name are the empty string here when the host query
  raises; no document is completed in that case.
\<close>

definition binary_name_of :: "host \<Rightarrow> string" where
  "binary_name_of h = (case get_root_filename h of Inr n \<Rightarrow> n | Inl e \<Rightarrow> [])"

definition name_of :: "host \<Rightarrow> nat \<Rightarrow> string" where
  "name_of h ea = (case get_name h ea of Inr n \<Rightarrow> n | Inl e \<Rightarrow> [])"

definition records_of :: "host \<Rightarrow> nat list \<Rightarrow> (nat \<times> string) list" where
  "records_of h eas = map (\<lambda>ea. (ea, name_of h ea)) eas"

fun table_rows :: "int \<Rightarrow> (nat \<times> string) list \<Rightarrow> string list" where
  "table_rows i [] = []"
| "table_rows i ((ea, name) # recs) = format_row i ea name # table_rows (i + 1) recs"

definition preamble :: "string \<Rightarrow> string \<Rightarrow> string list" where
  "preamble binary_name timestamp =
     [title_line binary_name, time_line timestamp, header_line, rule_line]"

definition document_chunks :: "string \<Rightarrow> string \<Rightarrow> (nat \<times> string) list \<Rightarrow> string list" where
  "document_chunks binary_name timestamp recs =
     preamble binary_name timestamp @ table_rows 1 recs @ [total_line (int (length recs))]"

definition document :: "string \<Rightarrow> string \<Rightarrow> (nat \<times> string) list \<Rightarrow> string" where
  "document binary_name timestamp recs = concat (document_chunks binary_name timestamp recs)"

definition expected_document :: "sys_env \<Rightarrow> host \<Rightarrow> string" where
  "expected_document env h =
     document (binary_name_of h) (now_strftime env) (records_of h (Functions h))"

section \<open>The writer seen from the file's content\<close>

text \<open>
  What the body of the \<open>with\<close> block does to the content of the one file it writes:
  the same steps as \<open>md_write\<close>, \<open>write_rows\<close> and \<open>write_document\<close>, on the
  content alone. The lemmas below show that the program on the world is this
  computation on the output file and leaves the rest of the world alone.
\<close>

definition put_file :: "string \<Rightarrow> string \<Rightarrow> world \<Rightarrow> world" where
  "put_file path c w = w\<lparr>files := (files w)(path \<mapsto> c)\<rparr>"

definition append_chunk :: "sys_env \<Rightarrow> string \<Rightarrow> string \<Rightarrow> (py_exception + unit) \<times> string" where
  "append_chunk env s c =
     (case write_fault env c s of Some e \<Rightarrow> (Inl e, c) | None \<Rightarrow> (Inr (), c @ s))"

fun rows_content ::
  "sys_env \<Rightarrow> host \<Rightarrow> nat list \<Rightarrow> int \<Rightarrow> int \<Rightarrow> string \<Rightarrow> (py_exception + int) \<times> string" where
  "rows_content env h [] index count c =
     (case Functions_fault h of Some e \<Rightarrow> (Inl e, c) | None \<Rightarrow> (Inr count, c))"
| "rows_content env h (func_ea # rest) index count c =
     and_then (query (get_name h func_ea) c) (\<lambda>func_name c.
     and_then (append_chunk env (format_row index func_ea func_name) c) (\<lambda>u c.
     rows_content env h rest (index + 1) (count + 1) c))"

definition document_content :: "sys_env \<Rightarrow> host \<Rightarrow> string \<Rightarrow> (py_exception + int) \<times> string" where
  "document_content env h c =
     and_then (query (get_root_filename h) c) (\<lambda>binary_name c.
     and_then (append_chunk env (title_line binary_name) c) (\<lambda>u c.
     and_then (append_chunk env (time_line (now_strftime env)) c) (\<lambda>u c.
     and_then (append_chunk env header_line c) (\<lambda>u c.
     and_then (append_chunk env rule_line c) (\<lambda>u c.
     and_then (rows_content env h (Functions h) 1 0 c) (\<lambda>count c.
     and_then (append_chunk env (total_line count) c) (\<lambda>u c.
     (Inr count, c))))))))"

text \<open>A result on the content, put back into a world whose file at \<open>path\<close> it is.\<close>

definition lift_file :: "string \<Rightarrow> world \<Rightarrow> (py_exception + 'a) \<times> string \<Rightarrow> 'a outcome" where
  "lift_file path w rc = (fst rc, put_file path (snd rc) w)"

section \<open>A concrete host and environment\<close>

text \<open>
  The specification's example: two functions, \<open>main\<close> at 0x1000 and \<open>sub_2010\<close>
  at 0x2010, in an environment where no call raises.
\<close>

definition quiet_env :: sys_env where
  "quiet_env = \<lparr>open_fault = (\<lambda>path. None), write_fault = (\<lambda>c s. None), close_fault = None,
     now_strftime = ''2024-01-02 03:04:05'', getcwd = ''/tmp'', dirname = (\<lambda>p. ''/work''),
     path_join = (\<lambda>d f. d @ ''/'' @ f)\<rparr>"

definition example_host :: host where
  "example_host = \<lparr>get_root_filename = Inr ''a.exe'', Functions = [4096, 8208],
     Functions_fault = None,
     get_name = (\<lambda>ea. if ea = 4096 then Inr ''main'' else Inr ''sub_2010''),
     get_input_file_path = Inr (Some ''/work/a.exe''),
     ask_file = (\<lambda>mode filter prompt default_path. Some default_path)\<rparr>"

definition empty_world :: world where
  "empty_world = \<lparr>files = Map.empty, open_handles = [], console = [], dialogs = []\<rparr>"

text \<open>
  Three environments that differ from it in one fault: the disk is full after the first
  write, the user interrupts the script after the first write, and the directory of the
  output path does not exist.
\<close>

definition disk_full_env :: sys_env where
  "disk_full_env = quiet_env\<lparr>write_fault :=
     (\<lambda>c s. if c = [] then None else Some (OSError ''[Errno 28] No space left on device''))\<rparr>"

definition interrupted_env :: sys_env where
  "interrupted_env = quiet_env\<lparr>write_fault :=
     (\<lambda>c s. if c = [] then None else Some KeyboardInterrupt)\<rparr>"

definition missing_dir_env :: sys_env where
  "missing_dir_env = quiet_env\<lparr>open_fault :=
     (\<lambda>path. Some (FileNotFoundError ''[Errno 2] No such file or directory''))\<rparr>"

text \<open>
  A world where the output file holds an older report, a host with no function, and a
  host whose user cancels the save dialog.
\<close>

definition stale_world :: world where
  "stale_world = empty_world\<lparr>files := (files empty_world)(''out.md'' := Some ''old report'')\<rparr>"


definition cancel_host :: host where
  "cancel_host = example_host\<lparr>ask_file := (\<lambda>mode filter prompt default_path. None)\<rparr>"

text \<open>
  A directory that cannot be written but holds the older report, which can; a path whose
  directory is missing; a console whose stream has been closed; and a disk that is full
  while the user interrupts the script during the close.
\<close>

definition readonly_dir_perms :: fs_perms where
  "readonly_dir_perms = \<lparr>parent_dir = (\<lambda>path. ReadOnly), file_writable = (\<lambda>path. True)\<rparr>"

definition readonly_dir_env :: sys_env where
  "readonly_dir_env = quiet_env\<lparr>open_fault := os_open_fault readonly_dir_perms (files stale_world)\<rparr>"

definition missing_dir_perms :: fs_perms where
  "missing_dir_perms = \<lparr>parent_dir = (\<lambda>path. Missing), file_writable = (\<lambda>path. True)\<rparr>"

definition closed_console :: "string \<Rightarrow> py_exception option" where
  "closed_console s = Some (ValueError ''I/O operation on closed file.'')"

definition interrupted_close_env :: sys_env where
  "interrupted_close_env = disk_full_env\<lparr>close_fault := Some KeyboardInterrupt\<rparr>"

text \<open>
  Hosts that raise at one query each: at the binary's name, at the name of the second
  function, and in the generator after the last function; and a disk where every write
  raises.
\<close>

definition no_database_host :: host where
  "no_database_host = example_host\<lparr>get_root_filename := Inl (RuntimeError ''no database'')\<rparr>"

definition unnamed_host :: host where
  "unnamed_host = example_host\<lparr>get_name :=
     (\<lambda>ea. if ea = 4096 then Inr ''main'' else Inl (RuntimeError ''no name''))\<rparr>"

definition broken_list_host :: host where
  "broken_list_host = example_host\<lparr>Functions_fault := Some (RuntimeError ''list changed'')\<rparr>"

definition failing_write_env :: sys_env where
  "failing_write_env = quiet_env\<lparr>write_fault :=
     (\<lambda>c s. Some (OSError ''[Errno 5] Input/output error''))\<rparr>"

section \<open>Numerals\<close>

lemma digit_cases_16:
  "(d::nat) < 16 \<Longrightarrow> d = 0 \<or> d = 1 \<or> d = 2 \<or> d = 3 \<or> d = 4 \<or> d = 5 \<or> d = 6 \<or> d = 7
     \<or> d = 8 \<or> d = 9 \<or> d = 10 \<or> d = 11 \<or> d = 12 \<or> d = 13 \<or> d = 14 \<or> d = 15"
  by arith

lemma digit_val_digit_char: "d < 16 \<Longrightarrow> digit_val (digit_char d) = d"
  by (drule digit_cases_16) (auto simp: digit_val_def digit_char_def)

lemma is_upper_hex_digit_char: "d < 16 \<Longrightarrow> is_upper_hex (digit_char d)"
  by (drule digit_cases_16) (auto simp: is_upper_hex_def digit_char_def)

lemma is_dec_digit_digit_char: "d < 10 \<Longrightarrow> is_dec_digit (digit_char d)"
proof -
  assume "d < 10"
  then have "d = 0 \<or> d = 1 \<or> d = 2 \<or> d = 3 \<or> d = 4 \<or> d = 5 \<or> d = 6 \<or> d = 7 \<or> d = 8 \<or> d = 9"
    by arith
  then show ?thesis by (auto simp: is_dec_digit_def digit_char_def)
qed

lemma digit_char_zero_iff: "d < 16 \<Longrightarrow> digit_char d = CHR ''0'' \<longleftrightarrow> d = 0"
  by (drule digit_cases_16) (auto simp: digit_char_def)

lemma numeral_val_snoc: "numeral_val b (s @ [c]) = numeral_val b s * b + digit_val c"
  by (simp add: numeral_val_def)

lemma format_base_nonempty: "format_base b n \<noteq> []"
  by (subst format_base.simps) simp

lemma numeral_val_format_base:
  "2 \<le> b \<Longrightarrow> b \<le> 16 \<Longrightarrow> numeral_val b (format_base b n) = n"
proof (induction b n rule: format_base.induct)
  case (1 b n)
  show ?case
  proof (cases "n < b")
    case True
    with "1.prems" show ?thesis
      by (subst format_base.simps) (simp add: numeral_val_def digit_val_digit_char)
  next
    case False
    with "1.prems" have "numeral_val b (format_base b (n div b)) = n div b"
      by (intro "1.IH") simp_all
    moreover from "1.prems" have "n mod b < 16"
      by (meson less_le_trans mod_less_divisor not_numeral_le_zero not_le le_less_trans zero_less_numeral)
    ultimately show ?thesis using False "1.prems"
      by (subst format_base.simps) (simp add: numeral_val_snoc digit_val_digit_char)
  qed
qed

lemma digits_format_base:
  "2 \<le> b \<Longrightarrow> c \<in> set (format_base b n) \<Longrightarrow> \<exists>d<b. c = digit_char d"
proof (induction b n rule: format_base.induct)
  case (1 b n)
  show ?case
  proof (cases "n < b")
    case True
    with "1.prems" show ?thesis
      by (subst (asm) format_base.simps) auto
  next
    case False
    with "1.prems" have "c \<in> set (format_base b (n div b)) \<or> c = digit_char (n mod b)"
      by (subst (asm) format_base.simps) auto
    then show ?thesis
    proof
      assume "c \<in> set (format_base b (n div b))"
      with False "1.prems" show ?thesis by (intro "1.IH") simp_all
    next
      assume "c = digit_char (n mod b)"
      moreover from "1.prems" have "n mod b < b" by simp
      ultimately show ?thesis by blast
    qed
  qed
qed

lemma hd_format_base:
  "2 \<le> b \<Longrightarrow> b \<le> 16 \<Longrightarrow> hd (format_base b n) = CHR ''0'' \<longleftrightarrow> n = 0"
proof (induction b n rule: format_base.induct)
  case (1 b n)
  show ?case
  proof (cases "n < b")
    case True
    with "1.prems" show ?thesis
      by (subst format_base.simps) (simp add: digit_char_zero_iff)
  next
    case False
    with "1.prems" have "hd (format_base b (n div b)) = CHR ''0'' \<longleftrightarrow> n div b = 0"
      by (intro "1.IH") simp_all
    moreover from False "1.prems" have "n div b \<noteq> 0" "n \<noteq> 0"
      by (simp_all add: div_eq_0_iff)
    ultimately show ?thesis using False "1.prems"
      by (subst format_base.simps) (simp add: format_base_nonempty)
  qed
qed


section \<open>The writer, chunk by chunk\<close>


lemma rows_content_success:
  "rows_content env h eas i n c = (Inr m, c') \<Longrightarrow>
     c' = c @ concat (table_rows i (records_of h eas)) \<and> m = n + int (length eas)
     \<and> Functions_fault h = None \<and> (\<forall>ea\<in>set eas. \<exists>name. get_name h ea = Inr name)"
proof (induction eas arbitrary: i n c)
  case Nil
  then show ?case by (simp add: records_of_def split: option.splits)
next
  case (Cons ea eas)
  from Cons.prems obtain name where name: "get_name h ea = Inr name"
    by (cases "get_name h ea") (auto simp: and_then_def query_def)
  from Cons.prems name have nofault: "write_fault env c (format_row i ea name) = None"
    by (cases "write_fault env c (format_row i ea name)") (auto simp: and_then_def query_def append_chunk_def)
  from Cons.prems name nofault
  have "rows_content env h eas (i + 1) (n + 1) (c @ format_row i ea name) = (Inr m, c')"
    by (simp add: and_then_def query_def append_chunk_def)
  from Cons.IH [OF this] name show ?case
    by (simp add: records_of_def name_of_def)
qed

lemma put_file_put_file [simp]: "put_file path c' (put_file path c w) = put_file path c' w"
  by (simp add: put_file_def)

lemma open_handles_put_file [simp]: "open_handles (put_file path c w) = open_handles w"
  by (simp add: put_file_def)

lemma file_content_put_file [simp]: "file_content (put_file path c w) path = c"
  by (simp add: put_file_def file_content_def)

lemma md_write_put:
  "path \<in> set (open_handles w) \<Longrightarrow>
     md_write env path s (put_file path c w) = lift_file path w (append_chunk env s c)"
  by (cases "write_fault env c s")
     (simp_all add: md_write_def append_chunk_def lift_file_def, simp add: put_file_def)

lemma query_put: "query r (put_file path c w) = lift_file path w (query r c)"
  by (simp add: query_def lift_file_def)

lemma and_then_lift:
  assumes "m = lift_file path w m'"
    and "\<And>x c. f x (put_file path c w) = lift_file path w (g x c)"
  shows "and_then m f = lift_file path w (and_then m' g)"
proof (cases m')
  case (Pair r c)
  then show ?thesis using assms
    by (cases r) (simp_all add: and_then_def lift_file_def)
qed

lemma write_rows_put:
  "path \<in> set (open_handles w) \<Longrightarrow>
     write_rows env h path eas i n (put_file path c w) = lift_file path w (rows_content env h eas i n c)"
proof (induction eas arbitrary: i n c)
  case Nil
  then show ?case by (simp add: lift_file_def split: option.splits)
next
  case (Cons ea eas)
  show ?case
    unfolding write_rows.simps rows_content.simps
    by (intro and_then_lift query_put md_write_put Cons.prems Cons.IH)
qed

lemma write_document_put:
  "path \<in> set (open_handles w) \<Longrightarrow>
     write_document env h path (put_file path c w) = lift_file path w (document_content env h c)"
  unfolding write_document_def document_content_def
  by (intro and_then_lift query_put md_write_put write_rows_put) (simp_all add: lift_file_def)

lemma with_open_write_document:
  "with_open env path (write_document env h path) w =
     (case open_fault env path of
        Some e \<Rightarrow> (Inl e, w)
      | None \<Rightarrow>
          (case close_fault env of
             Some e \<Rightarrow> (Inl e, put_file path (snd (document_content env h [])) w)
           | None \<Rightarrow> lift_file path w (document_content env h [])))"
proof (cases "open_fault env path")
  case (Some e)
  then show ?thesis by (simp add: with_open_def py_open_w_def)
next
  case None
  let ?w1 = "w\<lparr>open_handles := path # open_handles w\<rparr>"
  have open_eq: "py_open_w env path w = (Inr (), put_file path [] ?w1)"
    using None by (simp add: py_open_w_def put_file_def)
  have body: "write_document env h path (put_file path [] ?w1)
                = lift_file path ?w1 (document_content env h [])"
    by (rule write_document_put) simp
  show ?thesis
    using None
    by (cases "close_fault env")
       (simp_all add: with_open_def open_eq body lift_file_def py_close_def, simp_all add: put_file_def)
qed

lemma and_then_Inr: "and_then (Inr x, c) f = f x c"
  by (simp add: and_then_def)

lemma and_then_Inl: "and_then (Inl e, c) f = (Inl e, c)"
  by (simp add: and_then_def)

lemma and_then_cases:
  assumes "and_then m f = (r, c)"
  obtains (raised) e where "m = (Inl e, c)" and "r = Inl e"
        | (ok) x c1 where "m = (Inr x, c1)" and "f x c1 = (r, c)"
proof (cases m)
  case (Pair a b)
  with assms show ?thesis
    by (cases a) (auto simp: and_then_def intro: raised ok)
qed

lemma append_chunk_step:
  assumes "and_then (append_chunk env s c0) f = (r, c)"
  obtains (fault) "c = c0" and "\<exists>e. r = Inl e" | (written) "f () (c0 @ s) = (r, c)"
  using assms
  by (cases "write_fault env c0 s") (auto simp: and_then_def append_chunk_def)

lemma length_records_of [simp]: "length (records_of h eas) = length eas"
  by (simp add: records_of_def)

lemma rows_and_total_success:
  assumes "and_then (rows_content env h eas 1 0 c1)
             (\<lambda>count c. and_then (append_chunk env (total_line count) c) (\<lambda>u c. (Inr count, c)))
           = (Inr m, c)"
  shows "c = c1 @ concat (table_rows 1 (records_of h eas) @ [total_line (int (length eas))])
         \<and> m = int (length eas) \<and> Functions_fault h = None
         \<and> (\<forall>ea\<in>set eas. \<exists>name. get_name h ea = Inr name)"
  using assms
proof (cases rule: and_then_cases)
  case (raised e)
  then show ?thesis by simp
next
  case (ok n c2)
  note rows = rows_content_success [OF ok(1)]
  from ok(2) have "c = c2 @ total_line n \<and> m = n"
    by (cases rule: append_chunk_step) auto
  with rows show ?thesis by simp
qed

lemma document_content_success:
  assumes "document_content env h c0 = (Inr m, c)"
  shows "c = c0 @ expected_document env h \<and> m = int (length (Functions h))
         \<and> get_root_filename h = Inr (binary_name_of h) \<and> Functions_fault h = None
         \<and> (\<forall>ea\<in>set (Functions h). get_name h ea = Inr (name_of h ea))"
proof (cases "get_root_filename h")
  case (Inl e)
  with assms show ?thesis
    by (simp add: document_content_def and_then_def query_def)
next
  case (Inr binary_name)
  then have bn: "binary_name_of h = binary_name" by (simp add: binary_name_of_def)
  have names: "(\<forall>ea\<in>set (Functions h). \<exists>name. get_name h ea = Inr name)
               \<Longrightarrow> (\<forall>ea\<in>set (Functions h). get_name h ea = Inr (name_of h ea))"
    by (auto simp: name_of_def)
  from assms Inr show ?thesis
    unfolding document_content_def expected_document_def document_def document_chunks_def
      preamble_def bn
    apply (simp add: query_def and_then_Inr)
    apply (erule append_chunk_step, simp)+
    apply (drule rows_and_total_success)
    apply (auto simp: name_of_def)
    done
qed

section \<open>The run as a whole\<close>

lemma try_block_eq:
  "try_block env h path w =
     (case open_fault env path of
        Some e \<Rightarrow> (Inl e, w)
      | None \<Rightarrow>
          (case close_fault env of
             Some e \<Rightarrow> (Inl e, put_file path (snd (document_content env h [])) w)
           | None \<Rightarrow>
               (case fst (document_content env h []) of
                  Inl e \<Rightarrow> (Inl e, put_file path (snd (document_content env h [])) w)
                | Inr n \<Rightarrow> (Inr n, py_print (success_message n path)
                                     (put_file path (snd (document_content env h [])) w)))))"
  unfolding try_block_def with_open_write_document
  by (simp add: and_then_def lift_file_def split: option.splits sum.splits)

lemma try_block_success:
  assumes "try_block env h path w = (Inr n, w')"
  shows "document_content env h [] = (Inr n, expected_document env h)"
    and "w' = py_print (success_message n path) (put_file path (expected_document env h) w)"
    and "open_fault env path = None" and "close_fault env = None"
proof -
  obtain r c where D: "document_content env h [] = (r, c)" by (cases "document_content env h []")
  from assms D have o: "open_fault env path = None" and cl: "close_fault env = None"
    and r: "r = Inr n" and w': "w' = py_print (success_message n path) (put_file path c w)"
    by (auto simp: try_block_eq split: option.splits sum.splits)
  from D r document_content_success [of env h "[]" n c] have "c = expected_document env h" by simp
  with D r w' o cl show "document_content env h [] = (Inr n, expected_document env h)"
    and "w' = py_print (success_message n path) (put_file path (expected_document env h) w)"
    and "open_fault env path = None" and "close_fault env = None"
    by simp_all
qed

lemma rows_content_no_fault:
  assumes "\<And>c s. write_fault env c s = None" and "Functions_fault h = None"
    and "\<And>ea. ea \<in> set eas \<Longrightarrow> \<exists>name. get_name h ea = Inr name"
  shows "rows_content env h eas i n c =
           (Inr (n + int (length eas)), c @ concat (table_rows i (records_of h eas)))"
  using assms(3)
proof (induction eas arbitrary: i n c)
  case Nil
  then show ?case by (simp add: assms(2) records_of_def)
next
  case (Cons ea eas)
  from Cons.prems [of ea] obtain name where name: "get_name h ea = Inr name" by auto
  have "rows_content env h eas (i + 1) (n + 1) (c @ format_row i ea name) =
          (Inr (n + 1 + int (length eas)),
           (c @ format_row i ea name) @ concat (table_rows (i + 1) (records_of h eas)))"
    by (rule Cons.IH) (simp add: Cons.prems)
  then show ?case
    by (simp add: name and_then_def query_def append_chunk_def assms(1) records_of_def name_of_def)
qed

lemma document_content_no_fault:
  assumes "\<And>c s. write_fault env c s = None" and "Functions_fault h = None"
    and "\<And>ea. ea \<in> set (Functions h) \<Longrightarrow> \<exists>name. get_name h ea = Inr name"
    and "get_root_filename h = Inr binary_name"
  shows "document_content env h c0 = (Inr (int (length (Functions h))), c0 @ expected_document env h)"
  using assms(4)
  by (simp add: document_content_def and_then_def query_def append_chunk_def assms(1)
      rows_content_no_fault [OF assms(1-3)] expected_document_def document_def
      document_chunks_def preamble_def binary_name_of_def)

lemma try_block_no_fault:
  assumes "open_fault env path = None" and "\<And>c s. write_fault env c s = None"
    and "close_fault env = None" and "get_root_filename h = Inr binary_name"
    and "Functions_fault h = None"
    and "\<And>ea. ea \<in> set (Functions h) \<Longrightarrow> \<exists>name. get_name h ea = Inr name"
  shows "try_block env h path w =
           (Inr (int (length (Functions h))),
            py_print (success_message (int (length (Functions h))) path)
              (put_file path (expected_document env h) w))"
  by (simp add: try_block_eq assms(1,3)
      document_content_no_fault [OF assms(2) assms(5) assms(6) assms(4)])

lemmas document_evaluation = format_row_def str_int_def str_nat_def format_X_def format_base.simps digit_char_def
  title_line_def time_line_def header_line_def rule_line_def total_line_def preamble_def
  success_message_def records_of_def name_of_def binary_name_of_def

lemma example_run:
  "try_block quiet_env example_host ''out.md'' empty_world =
     (Inr 2, py_print (success_message 2 ''out.md'')
        (put_file ''out.md'' (expected_document quiet_env example_host) empty_world))"
  using try_block_no_fault [of quiet_env "''out.md''" example_host "''a.exe''" empty_world]
  by (simp add: quiet_env_def example_host_def)

lemma example_document:
  "expected_document quiet_env example_host =
     ''# Function List - a.exe\<newline>\<newline>''
        @ ''Export Time: 2024-01-02 03:04:05\<newline>\<newline>''
        @ ''| # | Address (Hex) | Address (Dec) | Function Name |\<newline>''
        @ ''|------|--------------|------------|-------|\<newline>''
        @ ''| 1 | `0x1000` | 4096 | `main` |\<newline>''
        @ ''| 2 | `0x2010` | 8208 | `sub_2010` |\<newline>''
        @ ''\<newline>\<newline>Total: 2 functions\<newline>''"
  by (simp add: expected_document_def document_def document_chunks_def quiet_env_def
      example_host_def document_evaluation)

lemma export_functions_eq:
  "export_functions env h path w =
     (case open_fault env path of
        Some e \<Rightarrow> if is_Exception e then (Inr 0, py_print (failure_message e) w) else (Inl e, w)
      | None \<Rightarrow>
          (case (case close_fault env of Some e \<Rightarrow> Inl e
                 | None \<Rightarrow> fst (document_content env h [])) of
             Inr n \<Rightarrow> (Inr n, py_print (success_message n path)
                                (put_file path (snd (document_content env h [])) w))
           | Inl e \<Rightarrow>
               if is_Exception e
               then (Inr 0, py_print (failure_message e)
                              (put_file path (snd (document_content env h [])) w))
               else (Inl e, put_file path (snd (document_content env h [])) w)))"
  by (simp add: export_functions_def try_block_eq split: option.splits sum.splits)

lemma open_handles_export_functions:
  "open_handles (snd (export_functions env h path w)) = open_handles w"
  by (simp add: export_functions_eq py_print_def split: option.splits sum.splits)

lemma dialogs_export_functions:
  "dialogs (snd (export_functions env h path w)) = dialogs w"
  by (simp add: export_functions_eq py_print_def put_file_def split: option.splits sum.splits)

lemma document_content_title_only:
  assumes "get_root_filename h = Inr bn" and "write_fault env [] (title_line bn) = None"
    and "write_fault env (title_line bn) (time_line (now_strftime env)) = Some e"
  shows "document_content env h [] = (Inl e, title_line bn)"
  using assms by (simp add: document_content_def and_then_def query_def append_chunk_def)

lemma title_line_nonempty: "title_line bn \<noteq> []"
  by (simp add: title_line_def)

lemma disk_full_run:
  "try_block disk_full_env example_host ''out.md'' empty_world =
     (Inl (OSError ''[Errno 28] No space left on device''),
      put_file ''out.md'' (title_line ''a.exe'') empty_world)"
proof -
  have "document_content disk_full_env example_host [] =
          (Inl (OSError ''[Errno 28] No space left on device''), title_line ''a.exe'')"
    by (rule document_content_title_only)
       (simp_all add: disk_full_env_def quiet_env_def example_host_def title_line_nonempty)
  moreover have "open_fault disk_full_env ''out.md'' = None" "close_fault disk_full_env = None"
    by (simp_all add: disk_full_env_def quiet_env_def)
  ultimately show ?thesis
    by (simp add: try_block_eq)
qed

lemma interrupted_run:
  "try_block interrupted_env example_host ''out.md'' empty_world =
     (Inl KeyboardInterrupt, put_file ''out.md'' (title_line ''a.exe'') empty_world)"
proof -
  have "document_content interrupted_env example_host [] = (Inl KeyboardInterrupt, title_line ''a.exe'')"
    by (rule document_content_title_only)
       (simp_all add: interrupted_env_def quiet_env_def example_host_def title_line_nonempty)
  moreover have "open_fault interrupted_env ''out.md'' = None" "close_fault interrupted_env = None"
    by (simp_all add: interrupted_env_def quiet_env_def)
  ultimately show ?thesis
    by (simp add: try_block_eq)
qed

lemma missing_dir_open:
  "open_fault missing_dir_env ''nowhere/out.md'' =
     Some (FileNotFoundError ''[Errno 2] No such file or directory'')"
  by (simp add: missing_dir_env_def)

lemma put_file_override:
  "put_file path c (w\<lparr>files := (files w)(path := old)\<rparr>) = put_file path c w"
  by (simp add: put_file_def)

lemma export_functions_replaces:
  assumes "open_fault env path = None"
  shows "export_functions env h path (w\<lparr>files := (files w)(path := old)\<rparr>)
           = export_functions env h path w"
  using assms
  by (simp add: export_functions_eq put_file_override split: sum.splits option.splits)

lemma files_export_functions:
  "files (snd (export_functions env h path w)) =
     (case open_fault env path of Some e \<Rightarrow> files w
      | None \<Rightarrow> (files w)(path \<mapsto> snd (document_content env h [])))"
  by (simp add: export_functions_eq py_print_def put_file_def split: sum.splits option.splits)

lemma fst_export_functions:
  "fst (export_functions env h path w1) = fst (export_functions env h path w2)"
  by (auto simp: export_functions_eq split: sum.splits option.splits)

lemma try_block_result:
  assumes "try_block env h path w = (Inr n, w')"
  shows "n = int (length (Functions h))" and "files w' path = Some (expected_document env h)"
proof -
  note s = try_block_success [OF assms]
  from document_content_success [OF s(1)] show "n = int (length (Functions h))" by simp
  show "files w' path = Some (expected_document env h)"
    by (simp add: s(2) py_print_def put_file_def)
qed

lemma quiet_open: "open_fault quiet_env ''out.md'' = None"
  by (simp add: quiet_env_def)

lemma export_functions_no_fault:
  assumes "open_fault env path = None" and "\<And>c s. write_fault env c s = None"
    and "close_fault env = None" and "get_root_filename h = Inr binary_name"
    and "Functions_fault h = None"
    and "\<And>ea. ea \<in> set (Functions h) \<Longrightarrow> \<exists>name. get_name h ea = Inr name"
  shows "export_functions env h path w =
           (Inr (int (length (Functions h))),
            py_print (success_message (int (length (Functions h))) path)
              (put_file path (expected_document env h) w))"
  using try_block_no_fault [OF assms] by (simp add: export_functions_def)






lemma list_all_format_base_hex: "list_all is_upper_hex (format_base 16 n)"
  unfolding list_all_iff
proof
  fix c assume "c \<in> set (format_base 16 n)"
  then obtain d where "d < 16" "c = digit_char d"
    using digits_format_base [of 16 c n] by auto
  then show "is_upper_hex c" by (simp add: is_upper_hex_digit_char)
qed

lemma list_all_format_base_dec: "list_all is_dec_digit (format_base 10 n)"
  unfolding list_all_iff
proof
  fix c assume "c \<in> set (format_base 10 n)"
  then obtain d where "d < 10" "c = digit_char d"
    using digits_format_base [of 10 c n] by auto
  then show "is_dec_digit c" by (simp add: is_dec_digit_digit_char)
qed

lemma format_8208: "format_X 8208 = ''2010''" "str_nat 8208 = ''8208''" "str_int 2 = ''2''"
  by (simp_all add: format_X_def str_nat_def str_int_def format_base.simps digit_char_def)

lemma main_eq:
  "main env h w =
     (case asked_path env h of
        None \<Rightarrow> (Inr (), py_print ''Export cancelled'' w)
      | Some path \<Rightarrow>
          if path = [] then (Inr (), py_print ''Export cancelled'' w)
          else and_then (export_functions env h path w) (\<lambda>count w.
                 if count > 0 then (Inr (), info (info_message count path) w)
                 else (Inr (), w)))"
  by (simp add: main_def asked_path_def Let_def split: option.splits)

lemma cancel_asked: "not_path (asked_path quiet_env cancel_host)"
  by (simp add: asked_path_def cancel_host_def)

lemma example_asked:
  "asked_path quiet_env example_host = Some ''/work/exported_functions.md''"
  by (simp add: asked_path_def example_host_def quiet_env_def default_dir_def)

lemma example_export:
  "export_functions quiet_env example_host ''/work/exported_functions.md'' empty_world =
     (Inr 2, py_print (success_message 2 ''/work/exported_functions.md'')
        (put_file ''/work/exported_functions.md'' (expected_document quiet_env example_host) empty_world))"
  using export_functions_no_fault [of quiet_env "''/work/exported_functions.md''" example_host "''a.exe''" empty_world]
  by (simp add: quiet_env_def example_host_def)

section \<open>Exceptions: where they are raised and where they go\<close>

lemma try_block_console_quiet: "try_block_console (\<lambda>s. None) env h path w = try_block env h path w"
  by (cases "with_open env path (write_document env h path) w")
     (auto simp: try_block_console_def try_block_def print_or_raise_def and_then_def split: sum.splits)

lemma export_functions_console_quiet:
  "export_functions_console (\<lambda>s. None) env h path w = export_functions env h path w"
  by (simp add: export_functions_console_def export_functions_def try_block_console_quiet
      print_or_raise_def and_then_def split: sum.splits prod.splits)

lemma rows_content_raises:
  "rows_content env h eas i n c = (Inl e, c') \<Longrightarrow>
     (\<exists>ea\<in>set eas. get_name h ea = Inl e) \<or> Functions_fault h = Some e
       \<or> (\<exists>c s. write_fault env c s = Some e)"
proof (induction eas arbitrary: i n c)
  case Nil
  then show ?case by (simp split: option.splits)
next
  case (Cons ea eas)
  show ?case
  proof (cases "get_name h ea")
    case (Inl e0)
    with Cons.prems show ?thesis by (simp add: and_then_def query_def)
  next
    case (Inr name)
    show ?thesis
    proof (cases "write_fault env c (format_row i ea name)")
      case (Some e0)
      with Cons.prems Inr have "e0 = e" by (simp add: and_then_def query_def append_chunk_def)
      with Some show ?thesis by blast
    next
      case None
      with Cons.prems Inr
      have "rows_content env h eas (i + 1) (n + 1) (c @ format_row i ea name) = (Inl e, c')"
        by (simp add: and_then_def query_def append_chunk_def)
      from Cons.IH [OF this] show ?thesis by auto
    qed
  qed
qed

lemma append_chunk_raises:
  assumes "and_then (append_chunk env s c0) f = (Inl e, c)"
  obtains "\<exists>c s. write_fault env c s = Some e" | "f () (c0 @ s) = (Inl e, c)"
  using assms
  by (cases "write_fault env c0 s") (auto simp: and_then_def append_chunk_def)

lemma document_content_raises:
  assumes "document_content env h c0 = (Inl e, c)"
  shows "get_root_filename h = Inl e \<or> (\<exists>ea\<in>set (Functions h). get_name h ea = Inl e)
       \<or> Functions_fault h = Some e \<or> (\<exists>c s. write_fault env c s = Some e)"
proof (cases "get_root_filename h")
  case (Inl e0)
  with assms show ?thesis
    by (simp add: document_content_def and_then_def query_def)
next
  case (Inr binary_name)
  from assms Inr show ?thesis
    unfolding document_content_def
    apply (simp add: query_def and_then_Inr)
    apply (erule append_chunk_raises, blast)+
    apply (erule and_then_cases)
     apply (drule rows_content_raises, blast)
    apply (erule append_chunk_raises, blast)
    apply simp
    done
qed

lemma try_block_console_eq:
  "try_block_console pf env h path w =
     (case open_fault env path of
        Some e \<Rightarrow> (Inl e, w)
      | None \<Rightarrow>
          (case close_fault env of
             Some e \<Rightarrow> (Inl e, put_file path (snd (document_content env h [])) w)
           | None \<Rightarrow>
               (case fst (document_content env h []) of
                  Inl e \<Rightarrow> (Inl e, put_file path (snd (document_content env h [])) w)
                | Inr n \<Rightarrow>
                    (case pf (success_message n path) of
                       Some e \<Rightarrow> (Inl e, put_file path (snd (document_content env h [])) w)
                     | None \<Rightarrow> (Inr n, py_print (success_message n path)
                                     (put_file path (snd (document_content env h [])) w))))))"
  unfolding try_block_console_def with_open_write_document
  by (simp add: and_then_def lift_file_def print_or_raise_def split: option.splits sum.splits)

lemma try_block_console_raises:
  assumes "try_block_console pf env h path w = (Inl e, w1)"
  shows "open_fault env path = Some e \<or> close_fault env = Some e
       \<or> get_root_filename h = Inl e \<or> (\<exists>ea\<in>set (Functions h). get_name h ea = Inl e)
       \<or> Functions_fault h = Some e \<or> (\<exists>c s. write_fault env c s = Some e)
       \<or> (\<exists>s. pf s = Some e)"
proof -
  obtain r c where D: "document_content env h [] = (r, c)"
    by (cases "document_content env h []")
  show ?thesis
  proof (cases "open_fault env path")
    case (Some e0)
    with assms show ?thesis by (simp add: try_block_console_eq)
  next
    case None
    note o = None
    show ?thesis
    proof (cases "close_fault env")
      case (Some e0)
      with assms o show ?thesis by (simp add: try_block_console_eq)
    next
      case None
      note cl = None
      show ?thesis
      proof (cases r)
        case (Inl e0)
        with assms o cl D have "e0 = e" by (simp add: try_block_console_eq)
        with D Inl have "document_content env h [] = (Inl e, c)" by simp
        from document_content_raises [OF this] show ?thesis by blast
      next
        case (Inr n)
        with assms o cl D have "pf (success_message n path) = Some e"
          by (cases "pf (success_message n path)") (simp_all add: try_block_console_eq)
        then show ?thesis by blast
      qed
    qed
  qed
qed

lemma fst_and_then_Inl: "fst m = Inl e \<Longrightarrow> fst (and_then m f) = Inl e"
  by (cases m) (simp add: and_then_def)

lemma rows_content_name_fault:
  assumes nw: "\<And>c s. write_fault env c s = None"
    and "k < length eas" and "get_name h (eas ! k) = Inl e"
    and "\<And>j. j < k \<Longrightarrow> \<exists>name. get_name h (eas ! j) = Inr name"
  shows "fst (rows_content env h eas i n c) = Inl e"
  using assms(2-)
proof (induction eas arbitrary: i n c k)
  case Nil
  then show ?case by simp
next
  case (Cons ea eas)
  show ?case
  proof (cases k)
    case 0
    with Cons.prems(2) show ?thesis by (simp add: and_then_def query_def)
  next
    case (Suc k')
    from Cons.prems(3) [of 0] Suc obtain name where name: "get_name h ea = Inr name" by auto
    have "fst (rows_content env h eas (i + 1) (n + 1) (c @ format_row i ea name)) = Inl e"
    proof (rule Cons.IH [of k'])
      show "k' < length eas" using Cons.prems(1) Suc by simp
      show "get_name h (eas ! k') = Inl e" using Cons.prems(2) Suc by simp
      show "\<exists>name. get_name h (eas ! j) = Inr name" if "j < k'" for j
        using Cons.prems(3) [of "Suc j"] that Suc by simp
    qed
    then show ?thesis
      by (simp add: name and_then_def query_def append_chunk_def nw)
  qed
qed

lemma rows_content_generator_fault:
  assumes nw: "\<And>c s. write_fault env c s = None"
    and "\<And>ea. ea \<in> set eas \<Longrightarrow> \<exists>name. get_name h ea = Inr name"
    and gf: "Functions_fault h = Some e"
  shows "fst (rows_content env h eas i n c) = Inl e"
  using assms(2)
proof (induction eas arbitrary: i n c)
  case Nil
  then show ?case by (simp add: gf)
next
  case (Cons ea eas)
  from Cons.prems [of ea] obtain name where name: "get_name h ea = Inr name" by auto
  have "fst (rows_content env h eas (i + 1) (n + 1) (c @ format_row i ea name)) = Inl e"
    by (rule Cons.IH) (simp add: Cons.prems)
  then show ?case
    by (simp add: name and_then_def query_def append_chunk_def nw)
qed

lemma document_content_rows_fault:
  assumes nw: "\<And>c s. write_fault env c s = None" and bn: "get_root_filename h = Inr bn"
    and rows: "\<And>i n c. fst (rows_content env h (Functions h) i n c) = Inl e"
  shows "fst (document_content env h c0) = Inl e"
  by (simp add: document_content_def query_def and_then_Inr bn append_chunk_def nw
      fst_and_then_Inl [OF rows])

lemma fst_write_document_open:
  assumes "open_fault env path = None"
  shows "fst (write_document env h path (snd (py_open_w env path w))) = fst (document_content env h [])"
proof -
  let ?w1 = "w\<lparr>open_handles := path # open_handles w\<rparr>"
  have open_eq: "py_open_w env path w = (Inr (), put_file path [] ?w1)"
    using assms by (simp add: py_open_w_def put_file_def)
  have body: "write_document env h path (put_file path [] ?w1)
                = lift_file path ?w1 (document_content env h [])"
    by (rule write_document_put) simp
  show ?thesis by (simp add: open_eq body lift_file_def)
qed

lemma fst_try_block_console:
  "fst (try_block_console pf env h path w) =
     (case open_fault env path of
        Some e \<Rightarrow> Inl e
      | None \<Rightarrow>
          (case close_fault env of
             Some e \<Rightarrow> Inl e
           | None \<Rightarrow>
               (case fst (document_content env h []) of
                  Inl e \<Rightarrow> Inl e
                | Inr n \<Rightarrow> (case pf (success_message n path) of Some e \<Rightarrow> Inl e | None \<Rightarrow> Inr n))))"
  by (simp add: try_block_console_eq split: option.splits sum.splits)

lemma export_functions_console_handler:
  assumes "try_block_console pf env h path w = (Inl e, w1)"
  shows "export_functions_console pf env h path w =
           (if is_Exception e
            then (case pf (failure_message e) of
                    Some e2 \<Rightarrow> (Inl e2, w1)
                  | None \<Rightarrow> (Inr 0, py_print (failure_message e) w1))
            else (Inl e, w1))"
  using assms
  by (simp add: export_functions_console_def print_or_raise_def and_then_def split: option.splits)

lemma export_functions_console_raises:
  assumes "export_functions_console pf env h path w = (Inl e, w1)"
  shows "(\<not> is_Exception e \<and> try_block_console pf env h path w = (Inl e, w1))
       \<or> (\<exists>e0. is_Exception e0 \<and> try_block_console pf env h path w = (Inl e0, w1)
              \<and> pf (failure_message e0) = Some e)"
proof -
  obtain r w0 where T: "try_block_console pf env h path w = (r, w0)"
    by (cases "try_block_console pf env h path w")
  show ?thesis
  proof (cases r)
    case (Inr n)
    with T assms show ?thesis by (simp add: export_functions_console_def)
  next
    case (Inl e0)
    with T have T': "try_block_console pf env h path w = (Inl e0, w0)" by simp
    from assms show ?thesis
      unfolding export_functions_console_handler [OF T'] T'
      by (cases "is_Exception e0"; cases "pf (failure_message e0)") auto
  qed
qed

lemma files_py_print [simp]: "files (py_print s w) = files w"
  by (simp add: py_print_def)

lemma files_try_block_console:
  "files (snd (try_block_console pf env h path w)) =
     (case open_fault env path of Some e \<Rightarrow> files w
      | None \<Rightarrow> (files w)(path \<mapsto> snd (document_content env h [])))"
  by (simp add: try_block_console_eq put_file_def split: option.splits sum.splits)

lemma snd_export_functions_console:
  "files (snd (export_functions_console pf env h path w)) = files (snd (try_block_console pf env h path w))"
proof -
  obtain r w0 where T: "try_block_console pf env h path w = (r, w0)"
    by (cases "try_block_console pf env h path w")
  show ?thesis
  proof (cases r)
    case (Inr n)
    with T show ?thesis by (simp add: export_functions_console_def)
  next
    case (Inl e0)
    with T have T': "try_block_console pf env h path w = (Inl e0, w0)" by simp
    show ?thesis
      unfolding export_functions_console_handler [OF T'] T'
      by (cases "is_Exception e0"; cases "pf (failure_message e0)") simp_all
  qed
qed

lemma files_export_functions_console:
  "files (snd (export_functions_console pf env h path w)) =
     (case open_fault env path of Some e \<Rightarrow> files w
      | None \<Rightarrow> (files w)(path \<mapsto> snd (document_content env h [])))"
  by (simp only: snd_export_functions_console files_try_block_console)

lemma export_functions_console_open_fault:
  assumes "open_fault env path = Some e"
  shows "export_functions_console pf env h path w =
           (if is_Exception e
            then (case pf (failure_message e) of
                    Some e2 \<Rightarrow> (Inl e2, w)
                  | None \<Rightarrow> (Inr 0, py_print (failure_message e) w))
            else (Inl e, w))"
proof -
  have "try_block_console pf env h path w = (Inl e, w)"
    using assms by (simp add: try_block_console_eq)
  from export_functions_console_handler [OF this] show ?thesis .
qed

lemma export_functions_console_count:
  assumes "export_functions_console pf env h path w = (Inr n, w')"
  shows "n = 0 \<or> (n = int (length (Functions h)) \<and> files w' path = Some (expected_document env h))"
proof -
  obtain r w0 where T: "try_block_console pf env h path w = (r, w0)"
    by (cases "try_block_console pf env h path w")
  show ?thesis
  proof (cases r)
    case (Inl e0)
    with T have T': "try_block_console pf env h path w = (Inl e0, w0)" by simp
    from assms have "n = 0"
      unfolding export_functions_console_handler [OF T']
      by (cases "is_Exception e0"; cases "pf (failure_message e0)") simp_all
    then show ?thesis ..
  next
    case (Inr m)
    with T assms have nm: "m = n" and w': "w0 = w'"
      by (simp_all add: export_functions_console_def)
    obtain r1 c where D: "document_content env h [] = (r1, c)"
      by (cases "document_content env h []")
    from T Inr nm w' D have r1: "r1 = Inr n" and o: "open_fault env path = None"
      and wf: "w' = py_print (success_message n path) (put_file path c w)"
      by (auto simp: try_block_console_eq split: option.splits sum.splits)
    from D r1 have "document_content env h [] = (Inr n, c)" by simp
    from document_content_success [OF this]
    have "c = expected_document env h" and "n = int (length (Functions h))" by simp_all
    with wf show ?thesis by (simp add: put_file_def)
  qed
qed





lemma try_block_console_body_fault:
  assumes "open_fault env path = None" and "close_fault env = None"
    and "document_content env h [] = (Inl e, c)"
  shows "try_block_console pf env h path w = (Inl e, put_file path c w)"
  using assms by (simp add: try_block_console_eq)

lemma disk_full_console_run:
  "try_block_console pf disk_full_env example_host ''out.md'' empty_world =
     (Inl (OSError ''[Errno 28] No space left on device''),
      put_file ''out.md'' (title_line ''a.exe'') empty_world)"
proof (rule try_block_console_body_fault)
  show "document_content disk_full_env example_host [] =
          (Inl (OSError ''[Errno 28] No space left on device''), title_line ''a.exe'')"
    by (rule document_content_title_only)
       (simp_all add: disk_full_env_def quiet_env_def example_host_def title_line_nonempty)
  show "open_fault disk_full_env ''out.md'' = None" "close_fault disk_full_env = None"
    by (simp_all add: disk_full_env_def quiet_env_def)
qed

lemma closed_console_fault:
  "closed_console (failure_message (OSError ''[Errno 28] No space left on device''))
     = Some (ValueError ''I/O operation on closed file.'')"
  by (simp add: closed_console_def)

lemma interrupted_close_facts:
  "open_fault interrupted_close_env ''out.md'' = None"
  "close_fault interrupted_close_env = Some KeyboardInterrupt"
  by (simp_all add: interrupted_close_env_def disk_full_env_def quiet_env_def)

lemma console_failure:
  "console (py_print (failure_message e) (put_file path c empty_world)) = [failure_message e]"
  by (simp add: py_print_def put_file_def empty_world_def)

lemma readonly_dir_open:
  "open_fault readonly_dir_env ''out.md'' = None"
  by (simp add: readonly_dir_env_def os_open_fault_def readonly_dir_perms_def stale_world_def
      empty_world_def)

lemma readonly_dir_run:
  "export_functions readonly_dir_env example_host ''out.md'' stale_world =
     (Inr 2, py_print (success_message 2 ''out.md'')
        (put_file ''out.md'' (expected_document readonly_dir_env example_host) stale_world))"
  using export_functions_no_fault [of readonly_dir_env "''out.md''" example_host "''a.exe''" stale_world]
    readonly_dir_open
  by (simp add: readonly_dir_env_def quiet_env_def example_host_def)

lemma readonly_dir_document:
  "expected_document readonly_dir_env example_host = expected_document quiet_env example_host"
  by (simp add: expected_document_def readonly_dir_env_def)

lemma interrupted_document:
  "expected_document interrupted_env example_host = expected_document quiet_env example_host"
  by (simp add: expected_document_def interrupted_env_def)

lemma stale_file: "files stale_world ''out.md'' = Some ''old report''"
  by (simp add: stale_world_def)

lemma readonly_new_file:
  "open_fault readonly_dir_env ''new.md'' =
     os_open_fault readonly_dir_perms (files stale_world) ''new.md''"
  "parent_dir readonly_dir_perms ''new.md'' = ReadOnly"
  "files stale_world ''new.md'' = None"
  by (simp_all add: readonly_dir_env_def readonly_dir_perms_def stale_world_def empty_world_def)


lemma missing_dir_perms_facts:
  "open_fault missing_dir_env ''nowhere/out.md'' =
     os_open_fault missing_dir_perms (files stale_world) ''nowhere/out.md''"
  "parent_dir missing_dir_perms ''nowhere/out.md'' = Missing"
  by (simp_all add: missing_dir_env_def os_open_fault_def missing_dir_perms_def)

lemma readonly_existing_file:
  "open_fault readonly_dir_env ''out.md'' =
     os_open_fault readonly_dir_perms (files stale_world) ''out.md''"
  "parent_dir readonly_dir_perms ''out.md'' = ReadOnly"
  "file_writable readonly_dir_perms ''out.md''"
  by (simp_all add: readonly_dir_env_def readonly_dir_perms_def)

lemma example_console_run:
  "export_functions_console (\<lambda>s. None) quiet_env example_host ''out.md'' empty_world =
     (Inr 2, py_print (success_message 2 ''out.md'')
        (put_file ''out.md'' (expected_document quiet_env example_host) empty_world))"
  by (simp add: export_functions_console_def try_block_console_quiet example_run)

lemma quiet_open_close:
  "open_fault quiet_env ''out.md'' = None \<and> close_fault quiet_env = None"
  by (simp add: quiet_env_def)

lemma no_database_facts:
  "open_fault quiet_env ''out.md'' = None \<and> close_fault quiet_env = None
     \<and> get_root_filename no_database_host = Inl (RuntimeError ''no database'')"
  by (simp add: quiet_env_def no_database_host_def)

lemma failing_write_facts:
  "open_fault failing_write_env ''out.md'' = None \<and> close_fault failing_write_env = None
     \<and> get_root_filename example_host = Inr ''a.exe''
     \<and> write_fault failing_write_env [] (title_line ''a.exe'') = Some (OSError ''[Errno 5] Input/output error'')"
  by (simp add: failing_write_env_def quiet_env_def example_host_def)

lemma unnamed_facts:
  "open_fault quiet_env ''out.md'' = None \<and> close_fault quiet_env = None
     \<and> get_root_filename unnamed_host = Inr ''a.exe'' \<and> (\<forall>c s. write_fault quiet_env c s = None)
     \<and> 1 < length (Functions unnamed_host)
     \<and> get_name unnamed_host (Functions unnamed_host ! 1) = Inl (RuntimeError ''no name'')
     \<and> (\<forall>j<1. \<exists>name. get_name unnamed_host (Functions unnamed_host ! j) = Inr name)"
  by (simp add: quiet_env_def unnamed_host_def example_host_def)

lemma broken_list_facts:
  "open_fault quiet_env ''out.md'' = None \<and> close_fault quiet_env = None
     \<and> get_root_filename broken_list_host = Inr ''a.exe'' \<and> (\<forall>c s. write_fault quiet_env c s = None)
     \<and> (\<forall>ea\<in>set (Functions broken_list_host). \<exists>name. get_name broken_list_host ea = Inr name)
     \<and> Functions_fault broken_list_host = Some (RuntimeError ''list changed'')"
  by (simp add: quiet_env_def broken_list_host_def example_host_def)

lemma disk_full_body:
  "open_fault disk_full_env ''out.md'' = None \<and> close_fault disk_full_env = None
     \<and> fst (write_document disk_full_env example_host ''out.md''
              (snd (py_open_w disk_full_env ''out.md'' empty_world)))
         = Inl (OSError ''[Errno 28] No space left on device'')"
proof -
  have o: "open_fault disk_full_env ''out.md'' = None" and c: "close_fault disk_full_env = None"
    by (simp_all add: disk_full_env_def quiet_env_def)
  have "document_content disk_full_env example_host [] =
          (Inl (OSError ''[Errno 28] No space left on device''), title_line ''a.exe'')"
    by (rule document_content_title_only)
       (simp_all add: disk_full_env_def quiet_env_def example_host_def title_line_nonempty)
  then show ?thesis
    by (simp add: o c fst_write_document_open)
qed

lemma closed_console_body:
  "open_fault quiet_env ''out.md'' = None \<and> close_fault quiet_env = None
     \<and> fst (write_document quiet_env example_host ''out.md''
              (snd (py_open_w quiet_env ''out.md'' empty_world))) = Inr 2
     \<and> closed_console (success_message 2 ''out.md'') = Some (ValueError ''I/O operation on closed file.'')"
proof -
  have o: "open_fault quiet_env ''out.md'' = None" and c: "close_fault quiet_env = None"
    by (simp_all add: quiet_env_def)
  from try_block_success(1) [OF example_run]
  have "document_content quiet_env example_host [] = (Inr 2, expected_document quiet_env example_host)" .
  then show ?thesis
    by (simp add: o c fst_write_document_open closed_console_def)
qed

section \<open>The claims\<close>



text \<open>
  C2, amended. The exception that leaves the \<open>try\<close> block is the one raised by the
  open; otherwise the one raised by the close at the end of the \<open>with\<close> block, which
  replaces whatever the body raised; otherwise the first one raised in the body, by a
  host query (the binary's name, a function's name, the generator of the function list)
  or by a write; otherwise the one raised by the \<open>print\<close> of the success message.
  It comes from one of these calls. If it is an instance of \<open>Exception\<close> and the
  \<open>print\<close> of the diagnostic does not raise, \<open>Export failed: <message>\<close> is
  printed and the function returns 0; if that \<open>print\<close> raises, its exception reaches
  the caller; if the exception is not an instance of \<open>Exception\<close>, it reaches the
  caller itself. Nothing else reaches the caller.
\<close>

theorem exception_handling:
  "(open_fault env output_path = Some e \<longrightarrow>
       fst (try_block_console pf env h output_path w) = Inl e)
   \<and> (open_fault env output_path = None \<and> close_fault env = Some e \<longrightarrow>
       fst (try_block_console pf env h output_path w) = Inl e)
   \<and> (open_fault env output_path = None \<and> close_fault env = None
        \<and> fst (write_document env h output_path (snd (py_open_w env output_path w))) = Inl e \<longrightarrow>
       fst (try_block_console pf env h output_path w) = Inl e)
   \<and> (open_fault env output_path = None \<and> close_fault env = None
        \<and> get_root_filename h = Inl e \<longrightarrow>
       fst (try_block_console pf env h output_path w) = Inl e)
   \<and> (open_fault env output_path = None \<and> close_fault env = None
        \<and> get_root_filename h = Inr bn \<and> write_fault env [] (title_line bn) = Some e \<longrightarrow>
       fst (try_block_console pf env h output_path w) = Inl e)
   \<and> (open_fault env output_path = None \<and> close_fault env = None
        \<and> get_root_filename h = Inr bn \<and> (\<forall>c s. write_fault env c s = None)
        \<and> k < length (Functions h) \<and> get_name h (Functions h ! k) = Inl e
        \<and> (\<forall>j<k. \<exists>name. get_name h (Functions h ! j) = Inr name) \<longrightarrow>
       fst (try_block_console pf env h output_path w) = Inl e)
   \<and> (open_fault env output_path = None \<and> close_fault env = None
        \<and> get_root_filename h = Inr bn \<and> (\<forall>c s. write_fault env c s = None)
        \<and> (\<forall>ea\<in>set (Functions h). \<exists>name. get_name h ea = Inr name)
        \<and> Functions_fault h = Some e \<longrightarrow>
       fst (try_block_console pf env h output_path w) = Inl e)
   \<and> (open_fault env output_path = None \<and> close_fault env = None
        \<and> fst (write_document env h output_path (snd (py_open_w env output_path w))) = Inr n
        \<and> pf (success_message n output_path) = Some e \<longrightarrow>
       fst (try_block_console pf env h output_path w) = Inl e)
   \<and> (try_block_console pf env h output_path w = (Inl e, w1) \<longrightarrow>
         (open_fault env output_path = Some e \<or> close_fault env = Some e
            \<or> get_root_filename h = Inl e \<or> (\<exists>ea\<in>set (Functions h). get_name h ea = Inl e)
            \<or> Functions_fault h = Some e \<or> (\<exists>c s. write_fault env c s = Some e)
            \<or> (\<exists>s. pf s = Some e))
       \<and> (is_Exception e \<and> pf (failure_message e) = None \<longrightarrow>
            export_functions_console pf env h output_path w
              = (Inr 0, py_print (failure_message e) w1))
       \<and> (is_Exception e \<and> pf (failure_message e) = Some e2 \<longrightarrow>
            export_functions_console pf env h output_path w = (Inl e2, w1))
       \<and> (\<not> is_Exception e \<longrightarrow>
            export_functions_console pf env h output_path w = (Inl e, w1)))
   \<and> (export_functions_console pf env h output_path w = (Inl e, w1) \<longrightarrow>
         \<not> is_Exception e \<or> (\<exists>e0. is_Exception e0 \<and> pf (failure_message e0) = Some e))
   \<and> export_functions_console (\<lambda>s. None) env h output_path w = export_functions env h output_path w"
proof -
  let ?T = "try_block_console pf env h output_path w"
  let ?R = "export_functions_console pf env h output_path w"
  let ?B = "fst (write_document env h output_path (snd (py_open_w env output_path w)))"
  have s1: "open_fault env output_path = Some e \<longrightarrow> fst ?T = Inl e"
    by (simp add: fst_try_block_console)
  have s2: "open_fault env output_path = None \<and> close_fault env = Some e \<longrightarrow> fst ?T = Inl e"
    by (simp add: fst_try_block_console)
  have s3: "open_fault env output_path = None \<and> close_fault env = None \<and> ?B = Inl e \<longrightarrow> fst ?T = Inl e"
    by (auto simp: fst_try_block_console fst_write_document_open)
  have s4: "open_fault env output_path = None \<and> close_fault env = None
        \<and> get_root_filename h = Inl e \<longrightarrow> fst ?T = Inl e"
    by (simp add: fst_try_block_console document_content_def query_def and_then_Inl)
  have s5: "open_fault env output_path = None \<and> close_fault env = None
        \<and> get_root_filename h = Inr bn \<and> write_fault env [] (title_line bn) = Some e \<longrightarrow>
       fst ?T = Inl e"
    by (simp add: fst_try_block_console document_content_def query_def and_then_Inr
        append_chunk_def and_then_Inl)
  have s6: "open_fault env output_path = None \<and> close_fault env = None
        \<and> get_root_filename h = Inr bn \<and> (\<forall>c s. write_fault env c s = None)
        \<and> k < length (Functions h) \<and> get_name h (Functions h ! k) = Inl e
        \<and> (\<forall>j<k. \<exists>name. get_name h (Functions h ! j) = Inr name) \<longrightarrow>
       fst ?T = Inl e"
  proof (intro impI, elim conjE)
    assume o: "open_fault env output_path = None" and cl: "close_fault env = None"
      and bn: "get_root_filename h = Inr bn" and nw: "\<forall>c s. write_fault env c s = None"
      and k: "k < length (Functions h)" "get_name h (Functions h ! k) = Inl e"
      and before: "\<forall>j<k. \<exists>name. get_name h (Functions h ! j) = Inr name"
    have "fst (rows_content env h (Functions h) i n c) = Inl e" for i n c
      by (rule rows_content_name_fault [OF _ k]) (simp_all add: nw before)
    then have "fst (document_content env h []) = Inl e"
      by (rule document_content_rows_fault [OF _ bn, rotated]) (simp add: nw)
    with o cl show "fst ?T = Inl e" by (simp add: fst_try_block_console)
  qed
  have s7: "open_fault env output_path = None \<and> close_fault env = None
        \<and> get_root_filename h = Inr bn \<and> (\<forall>c s. write_fault env c s = None)
        \<and> (\<forall>ea\<in>set (Functions h). \<exists>name. get_name h ea = Inr name)
        \<and> Functions_fault h = Some e \<longrightarrow>
       fst ?T = Inl e"
  proof (intro impI, elim conjE)
    assume o: "open_fault env output_path = None" and cl: "close_fault env = None"
      and bn: "get_root_filename h = Inr bn" and nw: "\<forall>c s. write_fault env c s = None"
      and names: "\<forall>ea\<in>set (Functions h). \<exists>name. get_name h ea = Inr name"
      and gf: "Functions_fault h = Some e"
    have "fst (rows_content env h (Functions h) i n c) = Inl e" for i n c
      by (rule rows_content_generator_fault [OF _ _ gf]) (simp_all add: nw names)
    then have "fst (document_content env h []) = Inl e"
      by (rule document_content_rows_fault [OF _ bn, rotated]) (simp add: nw)
    with o cl show "fst ?T = Inl e" by (simp add: fst_try_block_console)
  qed
  have s8: "open_fault env output_path = None \<and> close_fault env = None
        \<and> ?B = Inr n \<and> pf (success_message n output_path) = Some e \<longrightarrow> fst ?T = Inl e"
    by (auto simp: fst_try_block_console fst_write_document_open)
  have s9: "?T = (Inl e, w1) \<longrightarrow>
         (open_fault env output_path = Some e \<or> close_fault env = Some e
            \<or> get_root_filename h = Inl e \<or> (\<exists>ea\<in>set (Functions h). get_name h ea = Inl e)
            \<or> Functions_fault h = Some e \<or> (\<exists>c s. write_fault env c s = Some e)
            \<or> (\<exists>s. pf s = Some e))
       \<and> (is_Exception e \<and> pf (failure_message e) = None \<longrightarrow>
            ?R = (Inr 0, py_print (failure_message e) w1))
       \<and> (is_Exception e \<and> pf (failure_message e) = Some e2 \<longrightarrow> ?R = (Inl e2, w1))
       \<and> (\<not> is_Exception e \<longrightarrow> ?R = (Inl e, w1))"
  proof
    assume T: "?T = (Inl e, w1)"
    note origin = try_block_console_raises [OF T]
    note handler = export_functions_console_handler [OF T]
    show "(open_fault env output_path = Some e \<or> close_fault env = Some e
            \<or> get_root_filename h = Inl e \<or> (\<exists>ea\<in>set (Functions h). get_name h ea = Inl e)
            \<or> Functions_fault h = Some e \<or> (\<exists>c s. write_fault env c s = Some e)
            \<or> (\<exists>s. pf s = Some e))
       \<and> (is_Exception e \<and> pf (failure_message e) = None \<longrightarrow>
            ?R = (Inr 0, py_print (failure_message e) w1))
       \<and> (is_Exception e \<and> pf (failure_message e) = Some e2 \<longrightarrow> ?R = (Inl e2, w1))
       \<and> (\<not> is_Exception e \<longrightarrow> ?R = (Inl e, w1))"
      by (intro conjI impI origin) (simp_all add: handler)
  qed
  have s10: "?R = (Inl e, w1) \<longrightarrow>
         \<not> is_Exception e \<or> (\<exists>e0. is_Exception e0 \<and> pf (failure_message e0) = Some e)"
  proof
    assume "?R = (Inl e, w1)"
    from export_functions_console_raises [OF this]
    show "\<not> is_Exception e \<or> (\<exists>e0. is_Exception e0 \<and> pf (failure_message e0) = Some e)"
      by blast
  qed
  have s11: "export_functions_console (\<lambda>s. None) env h output_path w = export_functions env h output_path w"
    by (rule export_functions_console_quiet)
  show ?thesis
    by (intro conjI s1 s2 s3 s4 s5 s6 s7 s8 s9 s10 s11)
qed

theorem exception_handling_witness:
  "fst (try_block_console closed_console missing_dir_env example_host ''nowhere/out.md'' empty_world)
       = Inl (FileNotFoundError ''[Errno 2] No such file or directory'')
   \<and> fst (try_block_console closed_console interrupted_close_env example_host ''out.md'' empty_world)
       = Inl KeyboardInterrupt
   \<and> fst (try_block_console closed_console disk_full_env example_host ''out.md'' empty_world)
       = Inl (OSError ''[Errno 28] No space left on device'')
   \<and> fst (try_block_console closed_console quiet_env no_database_host ''out.md'' empty_world)
       = Inl (RuntimeError ''no database'')
   \<and> fst (try_block_console closed_console failing_write_env example_host ''out.md'' empty_world)
       = Inl (OSError ''[Errno 5] Input/output error'')
   \<and> fst (try_block_console closed_console quiet_env unnamed_host ''out.md'' empty_world)
       = Inl (RuntimeError ''no name'')
   \<and> fst (try_block_console closed_console quiet_env broken_list_host ''out.md'' empty_world)
       = Inl (RuntimeError ''list changed'')
   \<and> fst (try_block_console closed_console quiet_env example_host ''out.md'' empty_world)
       = Inl (ValueError ''I/O operation on closed file.'')
   \<and> fst (export_functions_console (\<lambda>s. None) disk_full_env example_host ''out.md'' empty_world) = Inr 0
   \<and> console (snd (export_functions_console (\<lambda>s. None) disk_full_env example_host ''out.md'' empty_world))
       = [failure_message (OSError ''[Errno 28] No space left on device'')]
   \<and> fst (export_functions_console closed_console disk_full_env example_host ''out.md'' empty_world)
       = Inl (ValueError ''I/O operation on closed file.'')
   \<and> fst (export_functions_console closed_console interrupted_close_env example_host ''out.md'' empty_world)
       = Inl KeyboardInterrupt"
proof -
  let ?T = "try_block_console closed_console interrupted_close_env example_host ''out.md'' empty_world"
  have exc: "is_Exception (OSError ''[Errno 28] No space left on device'')" by simp
  have not_exc: "\<not> is_Exception KeyboardInterrupt" by simp
  note rest = exception_handling [THEN conjunct2]
  note rest2 = rest [THEN conjunct2]
  note rest3 = rest2 [THEN conjunct2]
  note rest4 = rest3 [THEN conjunct2]
  note rest5 = rest4 [THEN conjunct2]
  note rest6 = rest5 [THEN conjunct2]
  note rest7 = rest6 [THEN conjunct2]
  note handler = rest7 [THEN conjunct2, THEN conjunct1, THEN mp]
  have open_fails: "fst (try_block_console closed_console missing_dir_env example_host ''nowhere/out.md''
         empty_world) = Inl (FileNotFoundError ''[Errno 2] No such file or directory'')"
    by (rule exception_handling [THEN conjunct1, THEN mp, OF missing_dir_open])
  have close_wins: "fst ?T = Inl KeyboardInterrupt"
    by (rule rest [THEN conjunct1, THEN mp, OF conjI, OF interrupted_close_facts])
  have body: "fst (try_block_console closed_console disk_full_env example_host ''out.md'' empty_world)
       = Inl (OSError ''[Errno 28] No space left on device'')"
    by (rule rest2 [THEN conjunct1, THEN mp, OF disk_full_body])
  have binary_name: "fst (try_block_console closed_console quiet_env no_database_host ''out.md'' empty_world)
       = Inl (RuntimeError ''no database'')"
    by (rule rest3 [THEN conjunct1, THEN mp, OF no_database_facts])
  have first_write: "fst (try_block_console closed_console failing_write_env example_host ''out.md'' empty_world)
       = Inl (OSError ''[Errno 5] Input/output error'')"
    by (rule rest4 [THEN conjunct1, THEN mp, OF failing_write_facts])
  have func_name: "fst (try_block_console closed_console quiet_env unnamed_host ''out.md'' empty_world)
       = Inl (RuntimeError ''no name'')"
    by (rule rest5 [THEN conjunct1, THEN mp, OF unnamed_facts])
  have generator: "fst (try_block_console closed_console quiet_env broken_list_host ''out.md'' empty_world)
       = Inl (RuntimeError ''list changed'')"
    by (rule rest6 [THEN conjunct1, THEN mp, OF broken_list_facts])
  have success_print: "fst (try_block_console closed_console quiet_env example_host ''out.md'' empty_world)
       = Inl (ValueError ''I/O operation on closed file.'')"
    by (rule exception_handling [where pf = closed_console, THEN conjunct2, THEN conjunct2,
          THEN conjunct2, THEN conjunct2, THEN conjunct2, THEN conjunct2, THEN conjunct2,
          THEN conjunct1, THEN mp, OF closed_console_body])
  have quiet: "export_functions_console (\<lambda>s. None) disk_full_env example_host ''out.md'' empty_world
      = (Inr 0, py_print (failure_message (OSError ''[Errno 28] No space left on device''))
                  (put_file ''out.md'' (title_line ''a.exe'') empty_world))"
    by (rule handler [OF disk_full_console_run [of "\<lambda>s. None"], THEN conjunct2, THEN conjunct1,
          THEN mp, OF conjI, OF exc refl])
  have closed: "export_functions_console closed_console disk_full_env example_host ''out.md'' empty_world
      = (Inl (ValueError ''I/O operation on closed file.''),
         put_file ''out.md'' (title_line ''a.exe'') empty_world)"
    by (rule handler [OF disk_full_console_run [of closed_console], THEN conjunct2, THEN conjunct2,
          THEN conjunct1, THEN mp, OF conjI, OF exc closed_console_fault])
  have "?T = (fst ?T, snd ?T)" by (rule prod.collapse [symmetric])
  then have T: "?T = (Inl KeyboardInterrupt, snd ?T)" by (simp only: close_wins)
  have interrupted: "export_functions_console closed_console interrupted_close_env example_host
      ''out.md'' empty_world = (Inl KeyboardInterrupt, snd ?T)"
    by (rule handler [OF T, THEN conjunct2, THEN conjunct2, THEN conjunct2, THEN mp, OF not_exc])
  show ?thesis
    by (simp only: open_fails close_wins body binary_name first_write func_name generator
        success_print quiet closed interrupted fst_conv snd_conv console_failure simp_thms)
qed

text \<open>
  C2 as stated (no exception ever reaches the caller) fails: when the user interrupts
  the script during the second write, \<open>KeyboardInterrupt\<close> leaves \<open>export_functions\<close>.
\<close>

theorem interrupt_propagates:
  "export_functions interrupted_env example_host ''out.md'' empty_world =
     (Inl KeyboardInterrupt, put_file ''out.md'' (title_line ''a.exe'') empty_world)"
  by (simp only: export_functions_def interrupted_run prod.case sum.case is_Exception.simps if_False)

text \<open>
  C3, amended. When the open raises, no file is changed, and if the exception is an
  instance of \<open>Exception\<close> and the \<open>print\<close> of the diagnostic does not raise, the
  function returns 0. The open raises when the directory of the output path does not
  exist, and when it cannot be written and no file exists at the path. When it cannot be
  written but a file that can be written exists at the path, the open succeeds and
  truncates the file: what the run leaves at the path does not depend on the previous
  content. Every run that returns a count returns 0 or the number of functions, and in
  the second case leaves the complete document.
\<close>

theorem open_failure_leaves_file_untouched:
  "(open_fault env output_path = Some e \<longrightarrow>
       files (snd (export_functions_console pf env h output_path w)) = files w
       \<and> (is_Exception e \<and> pf (failure_message e) = None \<longrightarrow>
            export_functions_console pf env h output_path w
              = (Inr 0, py_print (failure_message e) w)))
   \<and> (open_fault env output_path = os_open_fault perms (files w) output_path
        \<and> parent_dir perms output_path = Missing \<longrightarrow>
       files (snd (export_functions_console pf env h output_path w)) = files w
       \<and> (pf (failure_message (FileNotFoundError ''[Errno 2] No such file or directory'')) = None \<longrightarrow>
            export_functions_console pf env h output_path w
              = (Inr 0, py_print (failure_message
                   (FileNotFoundError ''[Errno 2] No such file or directory'')) w)))
   \<and> (open_fault env output_path = os_open_fault perms (files w) output_path
        \<and> parent_dir perms output_path = ReadOnly \<and> files w output_path = None \<longrightarrow>
       files (snd (export_functions_console pf env h output_path w)) = files w
       \<and> (pf (failure_message (PermissionError ''[Errno 13] Permission denied'')) = None \<longrightarrow>
            export_functions_console pf env h output_path w
              = (Inr 0, py_print (failure_message
                   (PermissionError ''[Errno 13] Permission denied'')) w)))
   \<and> (open_fault env output_path = os_open_fault perms (files w) output_path
        \<and> parent_dir perms output_path = ReadOnly \<and> files w output_path = Some c
        \<and> file_writable perms output_path \<longrightarrow>
       open_fault env output_path = None
       \<and> files (snd (py_open_w env output_path w)) output_path = Some []
       \<and> files (snd (export_functions_console pf env h output_path w)) output_path
           = files (snd (export_functions_console pf env h output_path
                           (w\<lparr>files := (files w)(output_path := None)\<rparr>))) output_path)
   \<and> (export_functions_console pf env h output_path w = (Inr n, w') \<longrightarrow>
         n = 0 \<or> n = int (length (Functions h))
                  \<and> files w' output_path = Some (expected_document env h))"
proof -
  let ?R = "export_functions_console pf env h output_path w"
  have A: "files (snd ?R) = files w
       \<and> (is_Exception e \<and> pf (failure_message e) = None \<longrightarrow>
            ?R = (Inr 0, py_print (failure_message e) w))"
    if "open_fault env output_path = Some e" for e
  proof
    show "files (snd ?R) = files w"
      using that by (simp add: files_export_functions_console)
    show "is_Exception e \<and> pf (failure_message e) = None \<longrightarrow>
            ?R = (Inr 0, py_print (failure_message e) w)"
      using that by (simp add: export_functions_console_open_fault)
  qed
  have c1: "open_fault env output_path = Some e \<longrightarrow>
       files (snd ?R) = files w
       \<and> (is_Exception e \<and> pf (failure_message e) = None \<longrightarrow>
            ?R = (Inr 0, py_print (failure_message e) w))"
    using A by blast
  have c2: "open_fault env output_path = os_open_fault perms (files w) output_path
        \<and> parent_dir perms output_path = Missing \<longrightarrow>
       files (snd ?R) = files w
       \<and> (pf (failure_message (FileNotFoundError ''[Errno 2] No such file or directory'')) = None \<longrightarrow>
            ?R = (Inr 0, py_print (failure_message
                   (FileNotFoundError ''[Errno 2] No such file or directory'')) w))"
  proof (intro impI, elim conjE)
    assume "open_fault env output_path = os_open_fault perms (files w) output_path"
      and "parent_dir perms output_path = Missing"
    then have "open_fault env output_path
                 = Some (FileNotFoundError ''[Errno 2] No such file or directory'')"
      by (simp add: os_open_fault_def)
    from A [OF this] show "files (snd ?R) = files w
       \<and> (pf (failure_message (FileNotFoundError ''[Errno 2] No such file or directory'')) = None \<longrightarrow>
            ?R = (Inr 0, py_print (failure_message
                   (FileNotFoundError ''[Errno 2] No such file or directory'')) w))"
      by simp
  qed
  have c3: "open_fault env output_path = os_open_fault perms (files w) output_path
        \<and> parent_dir perms output_path = ReadOnly \<and> files w output_path = None \<longrightarrow>
       files (snd ?R) = files w
       \<and> (pf (failure_message (PermissionError ''[Errno 13] Permission denied'')) = None \<longrightarrow>
            ?R = (Inr 0, py_print (failure_message
                   (PermissionError ''[Errno 13] Permission denied'')) w))"
  proof (intro impI, elim conjE)
    assume "open_fault env output_path = os_open_fault perms (files w) output_path"
      and "parent_dir perms output_path = ReadOnly" and "files w output_path = None"
    then have "open_fault env output_path = Some (PermissionError ''[Errno 13] Permission denied'')"
      by (simp add: os_open_fault_def)
    from A [OF this] show "files (snd ?R) = files w
       \<and> (pf (failure_message (PermissionError ''[Errno 13] Permission denied'')) = None \<longrightarrow>
            ?R = (Inr 0, py_print (failure_message
                   (PermissionError ''[Errno 13] Permission denied'')) w))"
      by simp
  qed
  have c4: "open_fault env output_path = os_open_fault perms (files w) output_path
        \<and> parent_dir perms output_path = ReadOnly \<and> files w output_path = Some c
        \<and> file_writable perms output_path \<longrightarrow>
       open_fault env output_path = None
       \<and> files (snd (py_open_w env output_path w)) output_path = Some []
       \<and> files (snd ?R) output_path
           = files (snd (export_functions_console pf env h output_path
                           (w\<lparr>files := (files w)(output_path := None)\<rparr>))) output_path"
  proof (intro impI, elim conjE)
    assume "open_fault env output_path = os_open_fault perms (files w) output_path"
      and "parent_dir perms output_path = ReadOnly" and "files w output_path = Some c"
      and "file_writable perms output_path"
    then have o: "open_fault env output_path = None"
      by (simp add: os_open_fault_def)
    then show "open_fault env output_path = None
       \<and> files (snd (py_open_w env output_path w)) output_path = Some []
       \<and> files (snd ?R) output_path
           = files (snd (export_functions_console pf env h output_path
                           (w\<lparr>files := (files w)(output_path := None)\<rparr>))) output_path"
      by (simp add: files_export_functions_console py_open_w_def)
  qed
  have c5: "?R = (Inr n, w') \<longrightarrow>
         n = 0 \<or> n = int (length (Functions h))
                  \<and> files w' output_path = Some (expected_document env h)"
    using export_functions_console_count [of pf env h output_path w n w'] by blast
  show ?thesis
    by (intro conjI c1 c2 c3 c4 c5)
qed

theorem open_failure_leaves_file_untouched_witness:
  "export_functions_console (\<lambda>s. None) missing_dir_env example_host ''nowhere/out.md'' empty_world
       = (Inr 0, py_print (failure_message (FileNotFoundError ''[Errno 2] No such file or directory''))
                   empty_world)
   \<and> files (snd (export_functions_console (\<lambda>s. None) missing_dir_env example_host ''nowhere/out.md''
                 stale_world)) = files stale_world
   \<and> export_functions_console (\<lambda>s. None) missing_dir_env example_host ''nowhere/out.md'' stale_world
       = (Inr 0, py_print (failure_message (FileNotFoundError ''[Errno 2] No such file or directory''))
                   stale_world)
   \<and> files (snd (export_functions_console (\<lambda>s. None) readonly_dir_env example_host ''new.md''
                 stale_world)) = files stale_world
   \<and> export_functions_console (\<lambda>s. None) readonly_dir_env example_host ''new.md'' stale_world
       = (Inr 0, py_print (failure_message (PermissionError ''[Errno 13] Permission denied''))
                   stale_world)
   \<and> open_fault readonly_dir_env ''out.md'' = None
   \<and> files (snd (py_open_w readonly_dir_env ''out.md'' stale_world)) ''out.md'' = Some []
   \<and> files (put_file ''out.md'' (expected_document quiet_env example_host) empty_world) ''out.md''
       = Some (expected_document quiet_env example_host)"
proof -
  have exc: "is_Exception (FileNotFoundError ''[Errno 2] No such file or directory'')"
    by simp
  note general = open_failure_leaves_file_untouched [THEN conjunct1, THEN mp, OF missing_dir_open,
      of "\<lambda>s. None" example_host empty_world]
  note missing = open_failure_leaves_file_untouched [THEN conjunct2, THEN conjunct1, THEN mp,
      OF conjI, OF missing_dir_perms_facts, of "\<lambda>s. None" example_host]
  note unwritable = open_failure_leaves_file_untouched [THEN conjunct2, THEN conjunct2, THEN conjunct1,
      THEN mp, OF conjI, OF readonly_new_file(1) conjI, OF readonly_new_file(2,3),
      of "\<lambda>s. None" example_host]
  note existing = open_failure_leaves_file_untouched [THEN conjunct2, THEN conjunct2, THEN conjunct2,
      THEN conjunct1, THEN mp, OF conjI, OF readonly_existing_file(1) conjI,
      OF readonly_existing_file(2) conjI, OF stale_file readonly_existing_file(3)]
  note counted = open_failure_leaves_file_untouched [THEN conjunct2, THEN conjunct2, THEN conjunct2,
      THEN conjunct2, THEN mp, OF example_console_run]
  have complete: "files (py_print (success_message 2 ''out.md'')
        (put_file ''out.md'' (expected_document quiet_env example_host) empty_world)) ''out.md''
       = Some (expected_document quiet_env example_host)"
    using counted by simp
  show ?thesis
    by (intro conjI general [THEN conjunct2, THEN mp, OF conjI, OF exc refl]
        missing [THEN conjunct1] missing [THEN conjunct2, THEN mp, OF refl]
        unwritable [THEN conjunct1] unwritable [THEN conjunct2, THEN mp, OF refl]
        existing [THEN conjunct1] existing [THEN conjunct2, THEN conjunct1]
        complete [unfolded files_py_print])
qed

text \<open>
  C3 as stated fails twice. In a directory that cannot be written, with the older report
  writable at the path, the run returns 2 and the report is replaced. And a run that the
  user interrupts during the second write neither leaves the complete document nor
  returns a count: \<open>KeyboardInterrupt\<close> leaves the function and the file holds the
  title alone.
\<close>

theorem unwritable_directory_overwrites:
  "parent_dir readonly_dir_perms ''out.md'' = ReadOnly
   \<and> open_fault readonly_dir_env ''out.md''
       = os_open_fault readonly_dir_perms (files stale_world) ''out.md''
   \<and> files stale_world ''out.md'' = Some ''old report''
   \<and> fst (export_functions readonly_dir_env example_host ''out.md'' stale_world) = Inr 2
   \<and> files (snd (export_functions readonly_dir_env example_host ''out.md'' stale_world)) ''out.md''
       = Some (expected_document readonly_dir_env example_host)
   \<and> expected_document readonly_dir_env example_host \<noteq> ''old report''
   \<and> fst (export_functions interrupted_env example_host ''out.md'' empty_world) = Inl KeyboardInterrupt
   \<and> files (snd (export_functions interrupted_env example_host ''out.md'' empty_world)) ''out.md''
       = Some (title_line ''a.exe'')
   \<and> title_line ''a.exe'' \<noteq> expected_document interrupted_env example_host"
proof -
  have interrupted: "export_functions interrupted_env example_host ''out.md'' empty_world =
     (Inl KeyboardInterrupt, put_file ''out.md'' (title_line ''a.exe'') empty_world)"
    by (simp only: export_functions_def interrupted_run prod.case sum.case is_Exception.simps if_False)
  have "parent_dir readonly_dir_perms ''out.md'' = ReadOnly"
    by (simp add: readonly_dir_perms_def)
  moreover have "open_fault readonly_dir_env ''out.md''
       = os_open_fault readonly_dir_perms (files stale_world) ''out.md''"
    by (simp add: readonly_dir_env_def)
  moreover note stale_file
  moreover have "fst (export_functions readonly_dir_env example_host ''out.md'' stale_world) = Inr 2"
    by (simp add: readonly_dir_run)
  moreover have "files (snd (export_functions readonly_dir_env example_host ''out.md'' stale_world)) ''out.md''
       = Some (expected_document readonly_dir_env example_host)"
    by (simp add: readonly_dir_run py_print_def put_file_def)
  moreover have "expected_document readonly_dir_env example_host \<noteq> ''old report''"
    by (simp add: readonly_dir_document example_document)
  moreover have "fst (export_functions interrupted_env example_host ''out.md'' empty_world) = Inl KeyboardInterrupt"
    by (simp add: interrupted)
  moreover have "files (snd (export_functions interrupted_env example_host ''out.md'' empty_world)) ''out.md''
       = Some (title_line ''a.exe'')"
    by (simp add: interrupted put_file_def)
  moreover have "title_line ''a.exe'' \<noteq> expected_document interrupted_env example_host"
    by (simp add: interrupted_document example_document title_line_def)
  ultimately show ?thesis by (intro conjI)
qed



text \<open>
  C9. The handle opened by the \<open>with\<close> statement is released when the block is left,
  whatever the open, the writes, the host queries and the close did: after the block, and
  after \<open>export_functions\<close>, the open handles are those from before the call.
\<close>

theorem file_closed_on_every_exit:
  "open_handles (snd (with_open env output_path (write_document env h output_path) w)) = open_handles w
   \<and> open_handles (snd (export_functions env h output_path w)) = open_handles w"
proof
  show "open_handles (snd (with_open env output_path (write_document env h output_path) w)) = open_handles w"
    by (cases "open_fault env output_path"; cases "close_fault env")
       (simp_all add: with_open_write_document lift_file_def)
  show "open_handles (snd (export_functions env h output_path w)) = open_handles w"
    by (rule open_handles_export_functions)
qed

theorem file_closed_on_every_exit_witness:
  "open_handles (snd (with_open interrupted_env ''out.md''
       (write_document interrupted_env example_host ''out.md'') empty_world)) = open_handles empty_world
   \<and> open_handles (snd (export_functions interrupted_env example_host ''out.md'' empty_world))
       = open_handles empty_world"
  by (rule file_closed_on_every_exit)

text \<open>
  C5. In a row the hexadecimal column is \<open>0x\<close> followed by the uppercase hexadecimal
  numeral of the address, without a leading zero unless the address is 0 (then it is
  \<open>0\<close>), the decimal column is its decimal numeral, and both numerals denote the
  address.
\<close>

theorem address_columns_agree:
  "format_row index func_ea func_name =
     ''| '' @ str_int index @ '' | `'' @ (''0x'' @ format_X func_ea) @ ''` | ''
       @ str_nat func_ea @ '' | `'' @ func_name @ ''` |\<newline>''
   \<and> format_X func_ea \<noteq> [] \<and> list_all is_upper_hex (format_X func_ea)
   \<and> (hd (format_X func_ea) = CHR ''0'') = (func_ea = 0) \<and> format_X 0 = ''0''
   \<and> str_nat func_ea \<noteq> [] \<and> list_all is_dec_digit (str_nat func_ea)
   \<and> (hd (str_nat func_ea) = CHR ''0'') = (func_ea = 0) \<and> str_nat 0 = ''0''
   \<and> numeral_val 16 (format_X func_ea) = func_ea
   \<and> numeral_val 10 (str_nat func_ea) = func_ea"
proof -
  have "format_base 16 0 = ''0''" "format_base 10 0 = ''0''"
    by (simp_all add: format_base.simps digit_char_def)
  then show ?thesis
    by (simp add: format_row_def format_X_def str_nat_def format_base_nonempty
        list_all_format_base_hex list_all_format_base_dec hd_format_base numeral_val_format_base)
qed

theorem address_columns_agree_witness:
  "format_row 2 8208 ''sub_2010'' = ''| 2 | `0x2010` | 8208 | `sub_2010` |\<newline>''
   \<and> numeral_val 16 ''2010'' = 8208 \<and> numeral_val 10 ''8208'' = 8208"
  using address_columns_agree [of 2 8208 "''sub_2010''", unfolded format_8208]
  by simp

text \<open>
  C6. The content the output file had before a run has no influence on the run: with a
  successful open, the outcome is the same whatever the file held (or whether it
  existed). Running the export a second time in the same environment leaves the same
  files and returns the same value as the first run; and after a successful run the file
  is exactly the document, with nothing of the old content left.
\<close>

theorem rerun_overwrites:
  "(open_fault env output_path = None \<longrightarrow>
      export_functions env h output_path (w\<lparr>files := (files w)(output_path := old)\<rparr>)
        = export_functions env h output_path w)
   \<and> files (snd (export_functions env h output_path (snd (export_functions env h output_path w))))
       = files (snd (export_functions env h output_path w))
   \<and> fst (export_functions env h output_path (snd (export_functions env h output_path w)))
       = fst (export_functions env h output_path w)
   \<and> (case try_block env h output_path w of
         (Inr n, w') \<Rightarrow> files w' output_path = Some (expected_document env h)
       | (Inl e, w') \<Rightarrow> True)"
proof (intro conjI)
  show "open_fault env output_path = None \<longrightarrow>
      export_functions env h output_path (w\<lparr>files := (files w)(output_path := old)\<rparr>)
        = export_functions env h output_path w"
    by (simp add: export_functions_replaces)
  show "files (snd (export_functions env h output_path (snd (export_functions env h output_path w))))
       = files (snd (export_functions env h output_path w))"
    by (cases "open_fault env output_path") (simp_all add: files_export_functions)
  show "fst (export_functions env h output_path (snd (export_functions env h output_path w)))
       = fst (export_functions env h output_path w)"
    by (rule fst_export_functions)
  show "case try_block env h output_path w of
         (Inr n, w') \<Rightarrow> files w' output_path = Some (expected_document env h)
       | (Inl e, w') \<Rightarrow> True"
  proof (cases "try_block env h output_path w")
    case (Pair r w')
    show ?thesis
    proof (cases r)
      case (Inl e)
      with Pair show ?thesis by simp
    next
      case (Inr n)
      with Pair have "try_block env h output_path w = (Inr n, w')" by simp
      from try_block_success(2) [OF this] Pair Inr show ?thesis
        by (simp add: py_print_def put_file_def)
    qed
  qed
qed

theorem rerun_overwrites_witness:
  "export_functions quiet_env example_host ''out.md''
       (empty_world\<lparr>files := (files empty_world)(''out.md'' := Some ''old report'')\<rparr>)
     = export_functions quiet_env example_host ''out.md'' empty_world"
  by (rule rerun_overwrites [THEN conjunct1, THEN mp, OF quiet_open])



text \<open>
  C8. \<open>main\<close>: when the dialog returns no path (\<open>None\<close> or the empty string), it prints
  \<open>Export cancelled\<close> and does nothing else, so the exporter did not run. Otherwise it
  runs the exporter on that path, and the success dialog is shown exactly when the
  returned count is greater than 0; an exception of the exporter passes through, with no
  dialog.
\<close>

theorem main_shell:
  "(not_path (asked_path env h) \<longrightarrow> main env h w = (Inr (), py_print ''Export cancelled'' w))
   \<and> (asked_path env h = Some path \<and> path \<noteq> [] \<and> export_functions env h path w = (Inr n, w') \<longrightarrow>
        main env h w = (Inr (), if 0 < n then info (info_message n path) w' else w')
        \<and> dialogs (snd (main env h w)) = dialogs w @ (if 0 < n then [info_message n path] else []))
   \<and> (asked_path env h = Some path \<and> path \<noteq> [] \<and> export_functions env h path w = (Inl e, w') \<longrightarrow>
        main env h w = (Inl e, w') \<and> dialogs w' = dialogs w)"
proof (intro conjI impI)
  assume "not_path (asked_path env h)"
  then show "main env h w = (Inr (), py_print ''Export cancelled'' w)"
    by (cases "asked_path env h") (simp_all add: main_eq)
next
  assume a: "asked_path env h = Some path \<and> path \<noteq> [] \<and> export_functions env h path w = (Inr n, w')"
  then show m: "main env h w = (Inr (), if 0 < n then info (info_message n path) w' else w')"
    by (simp add: main_eq and_then_def)
  from a have "dialogs w' = dialogs w"
    using dialogs_export_functions [of env h path w] by simp
  then show "dialogs (snd (main env h w)) = dialogs w @ (if 0 < n then [info_message n path] else [])"
    by (simp add: m info_def)
next
  assume a: "asked_path env h = Some path \<and> path \<noteq> [] \<and> export_functions env h path w = (Inl e, w')"
  then show "main env h w = (Inl e, w')"
    by (simp add: main_eq and_then_def)
  from a show "dialogs w' = dialogs w"
    using dialogs_export_functions [of env h path w] by simp
qed

theorem main_shell_witness:
  "main quiet_env cancel_host empty_world = (Inr (), py_print ''Export cancelled'' empty_world)
   \<and> dialogs (snd (main quiet_env example_host empty_world))
       = dialogs empty_world @ [info_message 2 ''/work/exported_functions.md'']"
proof
  show "main quiet_env cancel_host empty_world = (Inr (), py_print ''Export cancelled'' empty_world)"
    by (rule main_shell [THEN conjunct1, THEN mp, OF cancel_asked])
  have ne: "''/work/exported_functions.md'' \<noteq> []" by simp
  from main_shell [THEN conjunct2, THEN conjunct1, THEN mp, OF conjI, OF example_asked conjI, OF ne example_export,
      THEN conjunct2]
  show "dialogs (snd (main quiet_env example_host empty_world))
       = dialogs empty_world @ [info_message 2 ''/work/exported_functions.md'']"
    by simp
qed

text \<open>
  C10. The return value of \<open>export_functions\<close>, and with a successful open the content
  of the output file, are determined by the environment, the host and the path: they do
  not depend on the world the run starts from. Two successful runs on the same host with
  the same clock text return the same count and leave the same content, also when the
  rest of the environment differs.
\<close>

theorem deterministic_export:
  "fst (export_functions env h output_path w1) = fst (export_functions env h output_path w2)
   \<and> (open_fault env output_path = None \<longrightarrow>
        files (snd (export_functions env h output_path w1)) output_path
          = files (snd (export_functions env h output_path w2)) output_path)
   \<and> (try_block env h output_path w1 = (Inr n1, w1') \<and> try_block env2 h output_path w2 = (Inr n2, w2')
        \<and> now_strftime env2 = now_strftime env \<longrightarrow>
        n1 = n2 \<and> files w1' output_path = files w2' output_path)"
proof (intro conjI impI)
  show "fst (export_functions env h output_path w1) = fst (export_functions env h output_path w2)"
    by (rule fst_export_functions)
  show "files (snd (export_functions env h output_path w1)) output_path
          = files (snd (export_functions env h output_path w2)) output_path"
    if "open_fault env output_path = None"
    using that by (simp add: files_export_functions)
next
  assume a: "try_block env h output_path w1 = (Inr n1, w1') \<and> try_block env2 h output_path w2 = (Inr n2, w2')
        \<and> now_strftime env2 = now_strftime env"
  then have t1: "try_block env h output_path w1 = (Inr n1, w1')"
    and t2: "try_block env2 h output_path w2 = (Inr n2, w2')"
    and clock: "now_strftime env2 = now_strftime env" by simp_all
  have doc: "expected_document env2 h = expected_document env h"
    by (simp add: expected_document_def clock)
  from try_block_result [OF t1] try_block_result [OF t2] doc
  show "n1 = n2" and "files w1' output_path = files w2' output_path"
    by simp_all
qed

theorem deterministic_export_witness:
  "files (snd (export_functions quiet_env example_host ''out.md'' stale_world)) ''out.md''
     = files (snd (export_functions quiet_env example_host ''out.md'' empty_world)) ''out.md''"
  by (rule deterministic_export [THEN conjunct2, THEN conjunct1, THEN mp, OF quiet_open])

end
